theory Spec2Isabelle
  imports Main "HOL-Library.AList"
begin

section \<open>JavaScript values and documents\<close>

text \<open>
  The values that flow through \<^verbatim>\<open>src/index.ts\<close>: documents, queries, options and the
  results of the driver. An object is the list of its own properties in creation order;
  a JavaScript object has each key once.
\<close>

datatype jsval =
    Undefined
  | Null
  | JBool bool
  | JNum int
  | JNaN
  | JStr string
  | ObjectId nat
  | JArr "jsval list"
  | JObj "(string \<times> jsval) list"

type_synonym doc = "(string \<times> jsval) list"

text \<open>JavaScript truthiness, as tested by \<^verbatim>\<open>!x\<close>, \<^verbatim>\<open>x || y\<close>, \<^verbatim>\<open>x && y\<close> and \<^verbatim>\<open>x ? a : b\<close>.\<close>

fun truthy :: "jsval \<Rightarrow> bool" where
  "truthy Undefined = False"
| "truthy Null = False"
| "truthy (JBool b) = b"
| "truthy (JNum n) = (n \<noteq> 0)"
| "truthy JNaN = False"
| "truthy (JStr s) = (s \<noteq> [])"
| "truthy (ObjectId n) = True"
| "truthy (JArr xs) = True"
| "truthy (JObj ps) = True"

definition wf_doc :: "doc \<Rightarrow> bool" where
  "wf_doc d = distinct (map fst d)"

definition get_prop :: "doc \<Rightarrow> string \<Rightarrow> jsval option" where
  "get_prop d k = map_of d k"

text \<open>
  Object spread \<^verbatim>\<open>{...target, ...src}\<close>: every own property of \<open>src\<close>, in order, is
  defined on the object built so far. A key that is already there keeps its place and
  takes the new value, a new key is appended.
\<close>

definition spread :: "doc \<Rightarrow> doc \<Rightarrow> doc" where
  "spread target src = fold (\<lambda>(k, v). AList.update k v) src target"

text \<open>\<^verbatim>\<open>xs[0]\<close>: reading past the end of an array gives \<^verbatim>\<open>undefined\<close>.\<close>

definition first_elem :: "jsval list \<Rightarrow> jsval" where
  "first_elem xs = (case xs of [] \<Rightarrow> Undefined | x # _ \<Rightarrow> x)"

text \<open>
  \<^verbatim>\<open>Object.values\<close> of an object with array-index keys: the values by ascending index.
\<close>

definition Object_values :: "(nat \<times> jsval) list \<Rightarrow> jsval list" where
  "Object_values obj = map snd (sort_key fst obj)"


section \<open>The database handle\<close>

text \<open>
  \<^verbatim>\<open>database: Db\<close> is a parameter of \<^verbatim>\<open>createCollectionFactory\<close>. Its methods are the
  driver's; each takes the collection name (\<^verbatim>\<open>database.collection(name)\<close>), its arguments,
  and the state behind the handle, and either rejects with a reason or resolves with the
  driver's result object. Only the fields of the result objects that the source reads are kept.
\<close>

record InsertOneWriteOpResult =
  ops :: "jsval list option"
  ok :: int

record InsertWriteOpResult =
  insertedIds :: "(nat \<times> jsval) list"

record FindAndModifyWriteOpResult =
  fm_value :: jsval

record UpdateWriteOpResult =
  matchedCount :: nat
  modifiedCount :: nat

record DeleteWriteOpResult =
  deletedCount :: nat

type_synonym ('s, 'a) driver_op = "'s \<Rightarrow> (jsval + 'a) \<times> 's"

record 's Db =
  db_insertOne :: "string \<Rightarrow> doc \<Rightarrow> jsval \<Rightarrow> ('s, InsertOneWriteOpResult) driver_op"
  db_insertMany :: "string \<Rightarrow> doc list \<Rightarrow> jsval \<Rightarrow> ('s, InsertWriteOpResult) driver_op"
  db_findOneAndUpdate ::
    "string \<Rightarrow> jsval \<Rightarrow> jsval \<Rightarrow> jsval \<Rightarrow> ('s, FindAndModifyWriteOpResult) driver_op"
  db_findOneAndDelete :: "string \<Rightarrow> jsval \<Rightarrow> jsval \<Rightarrow> ('s, FindAndModifyWriteOpResult) driver_op"
  db_findOne :: "string \<Rightarrow> jsval \<Rightarrow> jsval \<Rightarrow> ('s, jsval) driver_op"
  db_find_toArray :: "string \<Rightarrow> jsval \<Rightarrow> jsval \<Rightarrow> ('s, jsval list) driver_op"
  db_updateMany :: "string \<Rightarrow> jsval \<Rightarrow> jsval \<Rightarrow> jsval \<Rightarrow> ('s, UpdateWriteOpResult) driver_op"
  db_deleteMany :: "string \<Rightarrow> jsval \<Rightarrow> jsval \<Rightarrow> ('s, DeleteWriteOpResult) driver_op"


section \<open>Collection configuration\<close>

text \<open>
  A hook is a caller-supplied asynchronous function of the document: it acts on the state
  and resolves, or rejects with a reason. Each of \<^verbatim>\<open>defaults\<close>, \<^verbatim>\<open>hooks\<close> and the three
  hooks is optional; an absent one is \<^verbatim>\<open>undefined\<close>, which is falsy, a present one is an
  object or a function, which is truthy.
\<close>

type_synonym 's hook = "jsval \<Rightarrow> 's \<Rightarrow> (jsval + unit) \<times> 's"

record 's Hooks =
  postCreateHook :: "'s hook option"
  postUpdateHook :: "'s hook option"
  postDeleteHook :: "'s hook option"

record 's CollectionConfig =
  defaults :: "doc option"
  hooks :: "'s Hooks option"


section \<open>Effects: promises over a world with an event log\<close>

text \<open>
  An \<^verbatim>\<open>async\<close> function is run to completion on a world and either rejects or resolves.
  The world is the state behind the database handle together with the log of what the
  collection did to its surroundings: every call of a driver method with its arguments, and
  every call of a hook with its argument. Errors carry where they were raised; the payload
  of \<open>DriverError\<close> and \<open>HookError\<close> is the reason the driver or the hook rejected with,
  unchanged. \<open>CreationError\<close> is the \<^verbatim>\<open>new Error(...)\<close> thrown by \<^verbatim>\<open>createOne\<close>.
\<close>

datatype hook_kind = PostCreate | PostUpdate | PostDelete

datatype driver_call =
    InsertOne string doc jsval
  | InsertMany string "doc list" jsval
  | FindOneAndUpdate string jsval jsval jsval
  | FindOneAndDelete string jsval jsval
  | FindOne string jsval jsval
  | Find string jsval jsval
  | UpdateMany string jsval jsval jsval
  | DeleteMany string jsval jsval

datatype event = Driver driver_call | Hook hook_kind jsval

datatype error = CreationError string | DriverError jsval | HookError jsval

record 's world =
  store :: 's
  events :: "event list"

type_synonym ('s, 'a) promise = "'s world \<Rightarrow> (error + 'a) \<times> 's world"

definition resolve :: "'a \<Rightarrow> ('s, 'a) promise" where
  "resolve x w = (Inr x, w)"

definition reject :: "error \<Rightarrow> ('s, 'a) promise" where
  "reject e w = (Inl e, w)"

text \<open>\<^verbatim>\<open>const x = await p; rest\<close>: a rejection of \<open>p\<close> skips the rest.\<close>

definition await :: "('s, 'a) promise \<Rightarrow> ('a \<Rightarrow> ('s, 'b) promise) \<Rightarrow> ('s, 'b) promise" where
  "await p rest w = (case p w of (Inl e, w') \<Rightarrow> (Inl e, w') | (Inr x, w') \<Rightarrow> rest x w')"

definition call_driver :: "driver_call \<Rightarrow> ('s, 'a) driver_op \<Rightarrow> ('s, 'a) promise" where
  "call_driver c operation w =
     (case operation (store w) of
        (r, s') \<Rightarrow>
          (case r of Inl reason \<Rightarrow> Inl (DriverError reason) | Inr x \<Rightarrow> Inr x,
           \<lparr>store = s', events = events w @ [Driver c]\<rparr>))"

definition call_hook :: "hook_kind \<Rightarrow> 's hook \<Rightarrow> jsval \<Rightarrow> ('s, unit) promise" where
  "call_hook k h d w =
     (case h d (store w) of
        (r, s') \<Rightarrow>
          (case r of Inl reason \<Rightarrow> Inl (HookError reason) | Inr u \<Rightarrow> Inr u,
           \<lparr>store = s', events = events w @ [Hook k d]\<rparr>))"


section \<open>The collection accessor (\<^verbatim>\<open>src/index.ts\<close>)\<close>

text \<open>
  \<^verbatim>\<open>defaults ? {...defaults, ...input} : input\<close>, the expression shared by \<^verbatim>\<open>createOne\<close>
  and the callback of \<^verbatim>\<open>inputs.map\<close> in \<^verbatim>\<open>createMany\<close>.
\<close>

definition inputWithDefaults :: "doc option \<Rightarrow> doc \<Rightarrow> doc" where
  "inputWithDefaults dflts input =
     (case dflts of Some d \<Rightarrow> spread (spread [] d) input | None \<Rightarrow> input)"

text \<open>\<^verbatim>\<open>hooks && hooks.postXHook\<close>: the hook to call, if there is one.\<close>

definition configured_hook ::
  "'s CollectionConfig \<Rightarrow> ('s Hooks \<Rightarrow> 's hook option) \<Rightarrow> 's hook option" where
  "configured_hook cfg sel = (case hooks cfg of None \<Rightarrow> None | Some hs \<Rightarrow> sel hs)"

text \<open>\<^verbatim>\<open>result.ops && result.result.ok ? result.ops[0] : undefined\<close>\<close>

definition newDocument :: "InsertOneWriteOpResult \<Rightarrow> jsval" where
  "newDocument result =
     (case ops result of
        None \<Rightarrow> Undefined
      | Some docs \<Rightarrow> if ok result \<noteq> 0 then first_elem docs else Undefined)"

definition creation_message :: string where
  "creation_message = ''Fa`iled to create new document''"

text \<open>
  \<^verbatim>\<open>createOne\<close> (lines 40 to 61): merge the defaults, insert, take the created document
  out of the result, throw if there is none, call the post-create hook if one is
  configured, return the created document.
\<close>

definition createOne ::
  "'s Db \<Rightarrow> string \<Rightarrow> 's CollectionConfig \<Rightarrow> doc \<Rightarrow> jsval \<Rightarrow> ('s, jsval) promise" where
  "createOne database name cfg input options =
     (let withDefaults = inputWithDefaults (defaults cfg) input in
      await (call_driver (InsertOne name withDefaults options)
               (db_insertOne database name withDefaults options))
        (\<lambda>result.
           let new = newDocument result in
           if \<not> truthy new then reject (CreationError creation_message)
           else
             await (case configured_hook cfg postCreateHook of
                      Some h \<Rightarrow> call_hook PostCreate h new
                    | None \<Rightarrow> resolve ())
               (\<lambda>_. resolve new)))"

text \<open>
  \<^verbatim>\<open>createMany\<close> (lines 62 to 74): merge the defaults into every input, insert them in
  one call, return the values of \<^verbatim>\<open>insertedIds\<close>. There is no hook call in its body.
\<close>

definition createMany ::
  "'s Db \<Rightarrow> string \<Rightarrow> 's CollectionConfig \<Rightarrow> doc list \<Rightarrow> jsval \<Rightarrow> ('s, jsval list) promise" where
  "createMany database name cfg inputs options =
     (let inputsWithDefaults = map (inputWithDefaults (defaults cfg)) inputs in
      await (call_driver (InsertMany name inputsWithDefaults options)
               (db_insertMany database name inputsWithDefaults options))
        (\<lambda>result. resolve (Object_values (insertedIds result))))"

text \<open>The update document \<^verbatim>\<open>{$set: update}\<close>.\<close>

definition set_update :: "doc \<Rightarrow> jsval" where
  "set_update update = JObj [(''$set'', JObj update)]"

text \<open>
  \<^verbatim>\<open>updateOne\<close> (lines 75 to 91) and \<^verbatim>\<open>deleteOne\<close> (lines 92 to 101): one
  find-and-modify call with the caller's query and options, then the hook if
  \<^verbatim>\<open>result.value\<close> is truthy and a hook is configured, then \<^verbatim>\<open>result.value\<close> is returned.
\<close>

definition updateOne ::
  "'s Db \<Rightarrow> string \<Rightarrow> 's CollectionConfig \<Rightarrow> jsval \<Rightarrow> doc \<Rightarrow> jsval \<Rightarrow> ('s, jsval) promise" where
  "updateOne database name cfg query update options =
     await (call_driver (FindOneAndUpdate name query (set_update update) options)
              (db_findOneAndUpdate database name query (set_update update) options))
       (\<lambda>result.
          let updatedDocument = fm_value result in
          await (if truthy updatedDocument
                 then (case configured_hook cfg postUpdateHook of
                         Some h \<Rightarrow> call_hook PostUpdate h updatedDocument
                       | None \<Rightarrow> resolve ())
                 else resolve ())
            (\<lambda>_. resolve updatedDocument))"

definition deleteOne ::
  "'s Db \<Rightarrow> string \<Rightarrow> 's CollectionConfig \<Rightarrow> jsval \<Rightarrow> jsval \<Rightarrow> ('s, jsval) promise" where
  "deleteOne database name cfg query options =
     await (call_driver (FindOneAndDelete name query options)
              (db_findOneAndDelete database name query options))
       (\<lambda>result.
          let deletedDocument = fm_value result in
          await (if truthy deletedDocument
                 then (case configured_hook cfg postDeleteHook of
                         Some h \<Rightarrow> call_hook PostDelete h deletedDocument
                       | None \<Rightarrow> resolve ())
                 else resolve ())
            (\<lambda>_. resolve deletedDocument))"

text \<open>
  \<^verbatim>\<open>readOne\<close> (lines 102 to 105) returns \<^verbatim>\<open>result || null\<close>; \<^verbatim>\<open>readMany\<close> (lines 106 to
  109) returns the array; \<^verbatim>\<open>updateMany\<close> (lines 110 to 119) returns
  \<^verbatim>\<open>result.matchedCount\<close> and \<^verbatim>\<open>deleteMany\<close> (lines 120 to 123) returns
  \<^verbatim>\<open>result.deletedCount\<close>.
\<close>

definition readOne ::
  "'s Db \<Rightarrow> string \<Rightarrow> 's CollectionConfig \<Rightarrow> jsval \<Rightarrow> jsval \<Rightarrow> ('s, jsval) promise" where
  "readOne database name cfg query options =
     await (call_driver (FindOne name query options) (db_findOne database name query options))
       (\<lambda>result. resolve (if truthy result then result else Null))"

definition readMany ::
  "'s Db \<Rightarrow> string \<Rightarrow> 's CollectionConfig \<Rightarrow> jsval \<Rightarrow> jsval \<Rightarrow> ('s, jsval list) promise" where
  "readMany database name cfg query options =
     await (call_driver (Find name query options) (db_find_toArray database name query options))
       (\<lambda>result. resolve result)"

definition updateMany ::
  "'s Db \<Rightarrow> string \<Rightarrow> 's CollectionConfig \<Rightarrow> jsval \<Rightarrow> doc \<Rightarrow> jsval \<Rightarrow> ('s, nat) promise" where
  "updateMany database name cfg query update options =
     await (call_driver (UpdateMany name query (set_update update) options)
              (db_updateMany database name query (set_update update) options))
       (\<lambda>result. resolve (matchedCount result))"

definition deleteMany ::
  "'s Db \<Rightarrow> string \<Rightarrow> 's CollectionConfig \<Rightarrow> jsval \<Rightarrow> jsval \<Rightarrow> ('s, nat) promise" where
  "deleteMany database name cfg query options =
     await (call_driver (DeleteMany name query options)
              (db_deleteMany database name query options))
       (\<lambda>result. resolve (deletedCount result))"

text \<open>
  The object returned by \<^verbatim>\<open>createCollection\<close> (lines 30 to 39 and 124 to 125): eight
  closures over \<^verbatim>\<open>(database, name, defaults, hooks)\<close>. The configuration parameter
  defaults to \<^verbatim>\<open>{}\<close>. The body is a single \<^verbatim>\<open>return\<close> of the object literal: it calls
  no method of \<^verbatim>\<open>database\<close> and no hook, so the world passes through it.
\<close>

record 's collection =
  c_createOne :: "doc \<Rightarrow> jsval \<Rightarrow> ('s, jsval) promise"
  c_createMany :: "doc list \<Rightarrow> jsval \<Rightarrow> ('s, jsval list) promise"
  c_updateOne :: "jsval \<Rightarrow> doc \<Rightarrow> jsval \<Rightarrow> ('s, jsval) promise"
  c_deleteOne :: "jsval \<Rightarrow> jsval \<Rightarrow> ('s, jsval) promise"
  c_readOne :: "jsval \<Rightarrow> jsval \<Rightarrow> ('s, jsval) promise"
  c_readMany :: "jsval \<Rightarrow> jsval \<Rightarrow> ('s, jsval list) promise"
  c_updateMany :: "jsval \<Rightarrow> doc \<Rightarrow> jsval \<Rightarrow> ('s, nat) promise"
  c_deleteMany :: "jsval \<Rightarrow> jsval \<Rightarrow> ('s, nat) promise"

definition empty_config :: "'s CollectionConfig" where
  "empty_config = \<lparr>defaults = None, hooks = None\<rparr>"

definition createCollectionFactory ::
  "'s Db \<Rightarrow> string \<Rightarrow> 's CollectionConfig option \<Rightarrow> 's world \<Rightarrow> 's collection \<times> 's world" where
  "createCollectionFactory database name config w =
     (let cfg = (case config of None \<Rightarrow> empty_config | Some c \<Rightarrow> c) in
      (\<lparr>c_createOne = createOne database name cfg,
        c_createMany = createMany database name cfg,
        c_updateOne = updateOne database name cfg,
        c_deleteOne = deleteOne database name cfg,
        c_readOne = readOne database name cfg,
        c_readMany = readMany database name cfg,
        c_updateMany = updateMany database name cfg,
        c_deleteMany = deleteMany database name cfg\<rparr>, w))"


section \<open>Reading the event log\<close>

text \<open>The documents handed to the driver for insertion, in order.\<close>

fun written_by :: "event \<Rightarrow> doc list" where
  "written_by (Driver (InsertOne name d options)) = [d]"
| "written_by (Driver (InsertMany name ds options)) = ds"
| "written_by e = []"

definition written :: "event list \<Rightarrow> doc list" where
  "written es = concat (map written_by es)"

text \<open>The hook invocations, in order, each with its argument.\<close>

fun hook_call_of :: "event \<Rightarrow> (hook_kind \<times> jsval) list" where
  "hook_call_of (Hook k d) = [(k, d)]"
| "hook_call_of e = []"

definition hook_calls :: "event list \<Rightarrow> (hook_kind \<times> jsval) list" where
  "hook_calls es = concat (map hook_call_of es)"

text \<open>The calls of driver methods, in order.\<close>

fun driver_call_of :: "event \<Rightarrow> driver_call list" where
  "driver_call_of (Driver c) = [c]"
| "driver_call_of e = []"

definition driver_calls :: "event list \<Rightarrow> driver_call list" where
  "driver_calls es = concat (map driver_call_of es)"


section \<open>The default-merge as the specification words it\<close>

text \<open>
  A shallow copy of Defaults overlaid with every key present in the input: a key of the
  input has the input's value, any other key has its Defaults value if there is one.
  Without Defaults the input passes through.
\<close>

definition default_merge :: "doc option \<Rightarrow> doc \<Rightarrow> string \<Rightarrow> jsval option" where
  "default_merge dflts input k =
     (case dflts of
        None \<Rightarrow> map_of input k
      | Some d \<Rightarrow> (case map_of input k of Some v \<Rightarrow> Some v | None \<Rightarrow> map_of d k))"


section \<open>A reference database\<close>

text \<open>
  The driver (the \<^verbatim>\<open>mongodb\<close> package) is an external collaborator of the repository. To
  run the accessor on concrete data, this section gives an in-memory database that follows
  the documented contract of version 3 of the driver, the one whose API
  \<^verbatim>\<open>src/index.ts\<close> uses (\<^verbatim>\<open>result.ops\<close>, \<^verbatim>\<open>result.result.ok\<close>, \<^verbatim>\<open>FindOneAndDeleteOption\<close>):
  \<^item> an inserted document without \<^verbatim>\<open>_id\<close> is given a fresh one, and is reported in \<^verbatim>\<open>ops\<close>;
  \<^item> \<^verbatim>\<open>findOneAndUpdate\<close> modifies the first match and reports, as \<^verbatim>\<open>value\<close>, the
    original document unless the option \<^verbatim>\<open>returnOriginal\<close> is the boolean \<^verbatim>\<open>false\<close>
    (the option defaults to \<^verbatim>\<open>true\<close>); \<^verbatim>\<open>null\<close> when nothing matches;
  \<^item> \<^verbatim>\<open>findOneAndDelete\<close> removes the first match and reports it;
  \<^item> \<^verbatim>\<open>updateMany\<close> reports how many documents matched and how many changed,
    \<^verbatim>\<open>deleteMany\<close> how many it deleted.
  The query language is a parameter (a predicate on a query and a document): the accessor
  never looks into a query. Options other than \<^verbatim>\<open>returnOriginal\<close> (upsert, projection,
  sort) and write errors are outside this model.
\<close>

record mongo_state =
  colls :: "string \<Rightarrow> doc list"
  next_id :: nat

text \<open>\<^verbatim>\<open>if (doc._id == null) doc._id = new ObjectId()\<close>\<close>

definition assign_id :: "nat \<Rightarrow> doc \<Rightarrow> doc" where
  "assign_id n d =
     (case map_of d ''_id'' of
        None \<Rightarrow> AList.update ''_id'' (ObjectId n) d
      | Some Undefined \<Rightarrow> AList.update ''_id'' (ObjectId n) d
      | Some Null \<Rightarrow> AList.update ''_id'' (ObjectId n) d
      | Some v \<Rightarrow> d)"

definition id_of :: "doc \<Rightarrow> jsval" where
  "id_of d = (case map_of d ''_id'' of None \<Rightarrow> Undefined | Some v \<Rightarrow> v)"

definition set_fields :: "jsval \<Rightarrow> doc option" where
  "set_fields u =
     (case u of
        JObj ps \<Rightarrow> (case map_of ps ''$set'' of Some (JObj upd) \<Rightarrow> Some upd | _ \<Rightarrow> None)
      | _ \<Rightarrow> None)"

definition returnOriginal :: "jsval \<Rightarrow> bool" where
  "returnOriginal options =
     (case options of
        JObj ps \<Rightarrow> (case map_of ps ''returnOriginal'' of Some (JBool b) \<Rightarrow> b | _ \<Rightarrow> True)
      | _ \<Rightarrow> True)"

fun update_first :: "('a \<Rightarrow> bool) \<Rightarrow> ('a \<Rightarrow> 'a) \<Rightarrow> 'a list \<Rightarrow> 'a list" where
  "update_first P f [] = []"
| "update_first P f (x # xs) = (if P x then f x # xs else x # update_first P f xs)"

fun delete_first :: "('a \<Rightarrow> bool) \<Rightarrow> 'a list \<Rightarrow> 'a list" where
  "delete_first P [] = []"
| "delete_first P (x # xs) = (if P x then xs else x # delete_first P xs)"

definition put_coll :: "string \<Rightarrow> doc list \<Rightarrow> mongo_state \<Rightarrow> mongo_state" where
  "put_coll name ds s = \<lparr>colls = (colls s)(name := ds), next_id = next_id s\<rparr>"

definition m_insertOne ::
  "string \<Rightarrow> doc \<Rightarrow> jsval \<Rightarrow> (mongo_state, InsertOneWriteOpResult) driver_op" where
  "m_insertOne name d options s =
     (let d' = assign_id (next_id s) d in
      (Inr \<lparr>ops = Some [JObj d'], ok = 1\<rparr>,
       \<lparr>colls = (colls s)(name := colls s name @ [d']), next_id = Suc (next_id s)\<rparr>))"

definition m_insertMany ::
  "string \<Rightarrow> doc list \<Rightarrow> jsval \<Rightarrow> (mongo_state, InsertWriteOpResult) driver_op" where
  "m_insertMany name ds options s =
     (let ds' = map (\<lambda>(i, d). assign_id i d) (enumerate (next_id s) ds) in
      (Inr \<lparr>insertedIds = enumerate 0 (map id_of ds')\<rparr>,
       \<lparr>colls = (colls s)(name := colls s name @ ds'), next_id = next_id s + length ds\<rparr>))"

definition m_findOneAndUpdate ::
  "(jsval \<Rightarrow> doc \<Rightarrow> bool) \<Rightarrow> string \<Rightarrow> jsval \<Rightarrow> jsval \<Rightarrow> jsval \<Rightarrow>
     (mongo_state, FindAndModifyWriteOpResult) driver_op" where
  "m_findOneAndUpdate M name q u options s =
     (case set_fields u of
        None \<Rightarrow> (Inl (JStr ''MongoError''), s)
      | Some upd \<Rightarrow>
          (case List.find (M q) (colls s name) of
             None \<Rightarrow> (Inr \<lparr>fm_value = Null\<rparr>, s)
           | Some d \<Rightarrow>
               (Inr \<lparr>fm_value = JObj (if returnOriginal options then d else spread d upd)\<rparr>,
                put_coll name (update_first (M q) (\<lambda>x. spread x upd) (colls s name)) s)))"

definition m_findOneAndDelete ::
  "(jsval \<Rightarrow> doc \<Rightarrow> bool) \<Rightarrow> string \<Rightarrow> jsval \<Rightarrow> jsval \<Rightarrow>
     (mongo_state, FindAndModifyWriteOpResult) driver_op" where
  "m_findOneAndDelete M name q options s =
     (case List.find (M q) (colls s name) of
        None \<Rightarrow> (Inr \<lparr>fm_value = Null\<rparr>, s)
      | Some d \<Rightarrow>
          (Inr \<lparr>fm_value = JObj d\<rparr>, put_coll name (delete_first (M q) (colls s name)) s))"

definition m_findOne ::
  "(jsval \<Rightarrow> doc \<Rightarrow> bool) \<Rightarrow> string \<Rightarrow> jsval \<Rightarrow> jsval \<Rightarrow> (mongo_state, jsval) driver_op" where
  "m_findOne M name q options s =
     (Inr (case List.find (M q) (colls s name) of None \<Rightarrow> Null | Some d \<Rightarrow> JObj d), s)"

definition m_find_toArray ::
  "(jsval \<Rightarrow> doc \<Rightarrow> bool) \<Rightarrow> string \<Rightarrow> jsval \<Rightarrow> jsval \<Rightarrow>
     (mongo_state, jsval list) driver_op" where
  "m_find_toArray M name q options s = (Inr (map JObj (filter (M q) (colls s name))), s)"

definition m_updateMany ::
  "(jsval \<Rightarrow> doc \<Rightarrow> bool) \<Rightarrow> string \<Rightarrow> jsval \<Rightarrow> jsval \<Rightarrow> jsval \<Rightarrow>
     (mongo_state, UpdateWriteOpResult) driver_op" where
  "m_updateMany M name q u options s =
     (case set_fields u of
        None \<Rightarrow> (Inl (JStr ''MongoError''), s)
      | Some upd \<Rightarrow>
          (let matched = filter (M q) (colls s name) in
           (Inr \<lparr>matchedCount = length matched,
                 modifiedCount = length (filter (\<lambda>d. spread d upd \<noteq> d) matched)\<rparr>,
            put_coll name (map (\<lambda>d. if M q d then spread d upd else d) (colls s name)) s)))"

definition m_deleteMany ::
  "(jsval \<Rightarrow> doc \<Rightarrow> bool) \<Rightarrow> string \<Rightarrow> jsval \<Rightarrow> jsval \<Rightarrow>
     (mongo_state, DeleteWriteOpResult) driver_op" where
  "m_deleteMany M name q options s =
     (Inr \<lparr>deletedCount = length (filter (M q) (colls s name))\<rparr>,
      put_coll name (filter (\<lambda>d. \<not> M q d) (colls s name)) s)"

definition mongo :: "(jsval \<Rightarrow> doc \<Rightarrow> bool) \<Rightarrow> mongo_state Db" where
  "mongo M =
     \<lparr>db_insertOne = m_insertOne,
      db_insertMany = m_insertMany,
      db_findOneAndUpdate = m_findOneAndUpdate M,
      db_findOneAndDelete = m_findOneAndDelete M,
      db_findOne = m_findOne M,
      db_find_toArray = m_find_toArray M,
      db_updateMany = m_updateMany M,
      db_deleteMany = m_deleteMany M\<rparr>"

text \<open>Field-equality queries \<^verbatim>\<open>{k1: v1, ...}\<close>: every listed field has the listed value.\<close>

definition field_eq :: "jsval \<Rightarrow> doc \<Rightarrow> bool" where
  "field_eq q d =
     (case q of JObj ps \<Rightarrow> list_all (\<lambda>(k, v). map_of d k = Some v) ps | _ \<Rightarrow> False)"


section \<open>Example data\<close>

text \<open>
  Concrete databases, configurations, hooks and two database handles that misbehave on
  purpose, for running the accessor on explicit inputs.
\<close>

definition empty_db :: mongo_state where
  "empty_db = \<lparr>colls = (\<lambda>_. []), next_id = 0\<rparr>"

definition yoda :: doc where
  "yoda = [(''_id'', ObjectId 0), (''name'', JStr ''Yoda''), (''isAdmin'', JBool False)]"

definition vader :: doc where
  "vader = [(''_id'', ObjectId 1), (''name'', JStr ''Vader''), (''isAdmin'', JBool True)]"

definition users_db :: mongo_state where
  "users_db = \<lparr>colls = (\<lambda>_. [])(''users'' := [yoda, vader]), next_id = 2\<rparr>"

definition admin_defaults :: "mongo_state CollectionConfig" where
  "admin_defaults = \<lparr>defaults = Some [(''isAdmin'', JBool False)], hooks = None\<rparr>"

definition failing_hook :: "mongo_state hook" where
  "failing_hook d s = (Inl (JStr ''hook failed''), s)"

definition audit_hook :: "mongo_state hook" where
  "audit_hook d s = (Inr (), put_coll ''audit'' (colls s ''audit'' @ [[(''seen'', d)]]) s)"

definition failing_hooks :: "mongo_state CollectionConfig" where
  "failing_hooks =
     \<lparr>defaults = None,
      hooks = Some \<lparr>postCreateHook = Some failing_hook, postUpdateHook = Some failing_hook,
                    postDeleteHook = Some failing_hook\<rparr>\<rparr>"

definition audit_hooks :: "mongo_state CollectionConfig" where
  "audit_hooks =
     \<lparr>defaults = None,
      hooks = Some \<lparr>postCreateHook = Some audit_hook, postUpdateHook = Some audit_hook,
                    postDeleteHook = Some audit_hook\<rparr>\<rparr>"

definition no_ops_db :: "mongo_state Db" where
  "no_ops_db = (mongo field_eq)\<lparr>db_insertOne := (\<lambda>name d options s. (Inr \<lparr>ops = Some [], ok = 1\<rparr>, s))\<rparr>"

definition not_ok_db :: "mongo_state Db" where
  "not_ok_db =
     (mongo field_eq)\<lparr>db_insertOne :=
       (\<lambda>name d options s. (Inr \<lparr>ops = Some [JObj d], ok = 0\<rparr>, s))\<rparr>"

definition undefined_find_db :: "mongo_state Db" where
  "undefined_find_db = (mongo field_eq)\<lparr>db_findOne := (\<lambda>name q options s. (Inr Undefined, s))\<rparr>"

definition yoda_admin :: doc where
  "yoda_admin = [(''_id'', ObjectId 0), (''name'', JStr ''Yoda''), (''isAdmin'', JBool True)]"


section \<open>Running promises and reading objects\<close>

lemmas run_defs =
  createOne_def createMany_def updateOne_def deleteOne_def readOne_def readMany_def
  updateMany_def deleteMany_def await_def call_driver_def call_hook_def resolve_def reject_def
  configured_hook_def

lemmas mongo_defs =
  mongo_def m_insertOne_def m_insertMany_def m_findOneAndUpdate_def m_findOneAndDelete_def
  m_findOne_def m_find_toArray_def m_updateMany_def m_deleteMany_def put_coll_def
  set_fields_def set_update_def returnOriginal_def assign_id_def id_of_def field_eq_def
  spread_def inputWithDefaults_def newDocument_def first_elem_def Let_def

lemmas example_defs =
  empty_db_def yoda_def vader_def yoda_admin_def users_db_def admin_defaults_def
  failing_hook_def audit_hook_def failing_hooks_def audit_hooks_def empty_config_def
  no_ops_db_def not_ok_db_def undefined_find_db_def

lemma written_append [simp]: "written (xs @ ys) = written xs @ written ys"
  by (simp add: written_def)

lemma hook_calls_append [simp]: "hook_calls (xs @ ys) = hook_calls xs @ hook_calls ys"
  by (simp add: hook_calls_def)

lemma driver_calls_append [simp]: "driver_calls (xs @ ys) = driver_calls xs @ driver_calls ys"
  by (simp add: driver_calls_def)

subsection \<open>Object spread as a map overlay\<close>

lemma map_of_fold_update:
  "map_of (fold (\<lambda>(k, v). AList.update k v) src target) = map_of target ++ map_of (rev src)"
proof (induction src arbitrary: target)
  case Nil
  show ?case by simp
next
  case (Cons p src)
  obtain k v where p: "p = (k, v)" by (cases p)
  have "map_of (fold (\<lambda>(k, v). AList.update k v) (p # src) target)
        = map_of (AList.update k v target) ++ map_of (rev src)"
    using Cons.IH [of "AList.update k v target"] by (simp add: p)
  also have "\<dots> = map_of target ++ map_of (rev (p # src))"
    by (simp add: p update_conv' fun_eq_iff map_add_def split: option.splits)
  finally show ?case .
qed

lemma map_of_rev_distinct:
  "distinct (map fst xs) \<Longrightarrow> map_of (rev xs) = map_of xs"
proof (induction xs)
  case Nil
  show ?case by simp
next
  case (Cons p xs)
  obtain k v where p: "p = (k, v)" by (cases p)
  from Cons.prems have notin: "k \<notin> fst ` set xs" and d: "distinct (map fst xs)"
    by (simp_all add: p)
  have "map_of xs k = None" using notin by (simp add: map_of_eq_None_iff)
  then show ?case
    using Cons.IH [OF d]
    by (auto simp: p fun_eq_iff map_add_def split: option.splits)
qed

lemma map_of_spread:
  "wf_doc src \<Longrightarrow> map_of (spread target src) = map_of target ++ map_of src"
  by (simp add: spread_def wf_doc_def map_of_fold_update map_of_rev_distinct)

lemma distinct_fold_update:
  "distinct (map fst target) \<Longrightarrow>
   distinct (map fst (fold (\<lambda>(k, v). AList.update k v) src target))"
  by (induction src arbitrary: target) (auto simp: distinct_update)

lemma wf_doc_spread: "wf_doc target \<Longrightarrow> wf_doc (spread target src)"
  by (simp add: wf_doc_def spread_def distinct_fold_update)

lemma get_prop_inputWithDefaults:
  assumes "wf_doc input" and "case dflts of None \<Rightarrow> True | Some d \<Rightarrow> wf_doc d"
  shows "get_prop (inputWithDefaults dflts input) k = default_merge dflts input k"
  using assms
  by (cases dflts)
     (simp_all add: get_prop_def inputWithDefaults_def default_merge_def map_of_spread
        map_add_def split: option.splits)

lemma wf_doc_Nil: "wf_doc []"
  by (simp add: wf_doc_def)

lemma wf_doc_inputWithDefaults:
  "wf_doc input \<Longrightarrow> wf_doc (inputWithDefaults dflts input)"
  by (cases dflts) (simp_all add: inputWithDefaults_def wf_doc_spread wf_doc_Nil)

subsection \<open>What the create operations hand to the driver\<close>


lemma createMany_events:
  "events (snd (createMany database name cfg inputs options w)) =
   events w @ [Driver (InsertMany name (map (inputWithDefaults (defaults cfg)) inputs) options)]"
  by (simp add: createMany_def await_def call_driver_def resolve_def Let_def
        split: prod.splits sum.splits)

subsection \<open>The reference database reports a missing match as null\<close>

lemma find_None_iff_filter: "List.find P xs = None \<longleftrightarrow> filter P xs = []"
  by (induction xs) auto

lemma mongo_not_found:
  assumes "filter (M query) (colls s name) = []"
  shows "db_findOne (mongo M) name query options s = (Inr Null, s)"
    and "db_findOneAndUpdate (mongo M) name query (set_update update) options s
           = (Inr \<lparr>fm_value = Null\<rparr>, s)"
    and "db_findOneAndDelete (mongo M) name query options s = (Inr \<lparr>fm_value = Null\<rparr>, s)"
  using assms
  by (simp_all add: mongo_def m_findOne_def m_findOneAndUpdate_def m_findOneAndDelete_def
        set_fields_def set_update_def find_None_iff_filter [symmetric])

subsection \<open>What the reference database reports for an update\<close>

lemma updateOne_mongo_value:
  assumes "List.find (M q) (colls (store w) name) = Some d"
    and "configured_hook cfg postUpdateHook = None"
  shows "fst (updateOne (mongo M) name cfg q upd options w) =
           Inr (JObj (if returnOriginal options then d else spread d upd))"
  using assms
  by (simp add: updateOne_def await_def call_driver_def resolve_def mongo_def
        m_findOneAndUpdate_def set_fields_def set_update_def)

subsection \<open>The reference database assigns an identifier\<close>

lemma assign_id_has_id:
  "\<exists>v. map_of (assign_id n d) ''_id'' = Some v \<and> v \<noteq> Null \<and> v \<noteq> Undefined"
proof (cases "map_of d ''_id''")
  case None
  then show ?thesis by (simp add: assign_id_def update_conv')
next
  case (Some v)
  then show ?thesis by (cases v) (simp_all add: assign_id_def update_conv')
qed


section \<open>The image returned by updateOne\<close>

text \<open>
  C1. The claim: whenever a document matches, \<^verbatim>\<open>updateOne\<close> applies the update as a
  \<^verbatim>\<open>$set\<close> overlay and returns the matched document in its post-update state.
  \<^verbatim>\<open>updateOne\<close> returns \<^verbatim>\<open>result.value\<close> of \<^verbatim>\<open>findOneAndUpdate\<close> as it is and hands the
  caller's options on untouched; it never asks for the updated document. With no options,
  as in the README example, the driver reports the original document. On a collection
  holding Yoda (not an admin) and Vader, \<^verbatim>\<open>updateOne({name: "Yoda"}, {isAdmin: true})\<close>
  stores Yoda as an admin and returns Yoda as he was before the update; only with
  \<^verbatim>\<open>{returnOriginal: false}\<close> does it return the updated document.
\<close>

theorem updateOne_default_options_pre_image:
  "fst (updateOne (mongo field_eq) ''users'' empty_config (JObj [(''name'', JStr ''Yoda'')])
          [(''isAdmin'', JBool True)] Undefined \<lparr>store = users_db, events = []\<rparr>)
     = Inr (JObj [(''_id'', ObjectId 0), (''name'', JStr ''Yoda''), (''isAdmin'', JBool False)])
   \<and> colls (store (snd (updateOne (mongo field_eq) ''users'' empty_config
          (JObj [(''name'', JStr ''Yoda'')]) [(''isAdmin'', JBool True)] Undefined
          \<lparr>store = users_db, events = []\<rparr>))) ''users''
     = [[(''_id'', ObjectId 0), (''name'', JStr ''Yoda''), (''isAdmin'', JBool True)], vader]
   \<and> fst (updateOne (mongo field_eq) ''users'' empty_config (JObj [(''name'', JStr ''Yoda'')])
          [(''isAdmin'', JBool True)] (JObj [(''returnOriginal'', JBool False)])
          \<lparr>store = users_db, events = []\<rparr>)
     = Inr (JObj [(''_id'', ObjectId 0), (''name'', JStr ''Yoda''), (''isAdmin'', JBool True)])"
  by (simp add: run_defs mongo_defs example_defs)


section \<open>Default merge\<close>

text \<open>
  C2. For every Defaults and every input, what \<^verbatim>\<open>createOne\<close> does is decided by the
  driver's \<^verbatim>\<open>insertOne\<close> applied to the merged document, and what \<^verbatim>\<open>createMany\<close> does by
  the driver's \<^verbatim>\<open>insertMany\<close> applied to the list of merged documents, one per input in
  order: the driver is handed nothing else. The merged document is the shallow copy of
  Defaults overlaid with every key of the input: read at any key, it gives the input's value
  if the input has the key and the Defaults value otherwise. Without Defaults the input is
  handed over as it is. Objects have each key once.
\<close>

theorem default_merge_inserted:
  assumes "\<forall>i \<in> set (input # inputs). wf_doc i"
    and "case defaults cfg of None \<Rightarrow> True | Some d \<Rightarrow> wf_doc d"
  shows "createOne database name cfg input options w =
           (case db_insertOne database name (inputWithDefaults (defaults cfg) input) options
                   (store w) of
              (x, s1) \<Rightarrow>
                (case x of
                   Inl reason \<Rightarrow>
                     (Inl (DriverError reason),
                      \<lparr>store = s1,
                       events = events w @
                         [Driver (InsertOne name (inputWithDefaults (defaults cfg) input)
                                    options)]\<rparr>)
                 | Inr r \<Rightarrow>
                     if \<not> truthy (newDocument r)
                     then (Inl (CreationError creation_message),
                           \<lparr>store = s1,
                            events = events w @
                              [Driver (InsertOne name (inputWithDefaults (defaults cfg) input)
                                         options)]\<rparr>)
                     else
                       (case configured_hook cfg postCreateHook of
                          None \<Rightarrow>
                            (Inr (newDocument r),
                             \<lparr>store = s1,
                              events = events w @
                                [Driver (InsertOne name (inputWithDefaults (defaults cfg) input)
                                           options)]\<rparr>)
                        | Some h \<Rightarrow>
                            (case h (newDocument r) s1 of
                               (u, s2) \<Rightarrow>
                                 (case u of
                                    Inl reason \<Rightarrow> Inl (HookError reason)
                                  | Inr _ \<Rightarrow> Inr (newDocument r),
                                  \<lparr>store = s2,
                                   events = events w @
                                     [Driver (InsertOne name
                                                (inputWithDefaults (defaults cfg) input) options),
                                      Hook PostCreate (newDocument r)]\<rparr>)))))
       \<and> createMany database name cfg inputs options w =
           (case db_insertMany database name (map (inputWithDefaults (defaults cfg)) inputs)
                   options (store w) of
              (x, s1) \<Rightarrow>
                (case x of
                   Inl reason \<Rightarrow> Inl (DriverError reason)
                 | Inr r \<Rightarrow> Inr (Object_values (insertedIds r)),
                 \<lparr>store = s1,
                  events = events w @
                    [Driver (InsertMany name (map (inputWithDefaults (defaults cfg)) inputs)
                               options)]\<rparr>))
       \<and> (\<forall>i \<in> set (input # inputs). \<forall>k.
             get_prop (inputWithDefaults (defaults cfg) i) k = default_merge (defaults cfg) i k)
       \<and> (defaults cfg = None \<longrightarrow> (\<forall>i. inputWithDefaults (defaults cfg) i = i))"
proof (intro conjI)
  show "createOne database name cfg input options w =
           (case db_insertOne database name (inputWithDefaults (defaults cfg) input) options
                   (store w) of
              (x, s1) \<Rightarrow>
                (case x of
                   Inl reason \<Rightarrow>
                     (Inl (DriverError reason),
                      \<lparr>store = s1,
                       events = events w @
                         [Driver (InsertOne name (inputWithDefaults (defaults cfg) input)
                                    options)]\<rparr>)
                 | Inr r \<Rightarrow>
                     if \<not> truthy (newDocument r)
                     then (Inl (CreationError creation_message),
                           \<lparr>store = s1,
                            events = events w @
                              [Driver (InsertOne name (inputWithDefaults (defaults cfg) input)
                                         options)]\<rparr>)
                     else
                       (case configured_hook cfg postCreateHook of
                          None \<Rightarrow>
                            (Inr (newDocument r),
                             \<lparr>store = s1,
                              events = events w @
                                [Driver (InsertOne name (inputWithDefaults (defaults cfg) input)
                                           options)]\<rparr>)
                        | Some h \<Rightarrow>
                            (case h (newDocument r) s1 of
                               (u, s2) \<Rightarrow>
                                 (case u of
                                    Inl reason \<Rightarrow> Inl (HookError reason)
                                  | Inr _ \<Rightarrow> Inr (newDocument r),
                                  \<lparr>store = s2,
                                   events = events w @
                                     [Driver (InsertOne name
                                                (inputWithDefaults (defaults cfg) input) options),
                                      Hook PostCreate (newDocument r)]\<rparr>)))))"
    by (simp add: createOne_def Let_def await_def call_driver_def call_hook_def resolve_def
          reject_def split: prod.splits sum.splits option.splits)
  show "createMany database name cfg inputs options w =
           (case db_insertMany database name (map (inputWithDefaults (defaults cfg)) inputs)
                   options (store w) of
              (x, s1) \<Rightarrow>
                (case x of
                   Inl reason \<Rightarrow> Inl (DriverError reason)
                 | Inr r \<Rightarrow> Inr (Object_values (insertedIds r)),
                 \<lparr>store = s1,
                  events = events w @
                    [Driver (InsertMany name (map (inputWithDefaults (defaults cfg)) inputs)
                               options)]\<rparr>))"
    by (simp add: createMany_def Let_def await_def call_driver_def resolve_def
          split: prod.splits sum.splits)
  show "\<forall>i \<in> set (input # inputs). \<forall>k.
          get_prop (inputWithDefaults (defaults cfg) i) k = default_merge (defaults cfg) i k"
    using assms by (blast intro: get_prop_inputWithDefaults)
  show "defaults cfg = None \<longrightarrow> (\<forall>i. inputWithDefaults (defaults cfg) i = i)"
    by (simp add: inputWithDefaults_def)
qed

theorem default_merge_inserted_witness:
  "wf_doc [(''name'', JStr ''Yoda'')]
   \<and> wf_doc [(''name'', JStr ''Vader''), (''isAdmin'', JBool True)]
   \<and> wf_doc [(''isAdmin'', JBool False)]
   \<and> createOne (mongo field_eq) ''users'' admin_defaults [(''name'', JStr ''Yoda'')] Undefined
        \<lparr>store = empty_db, events = []\<rparr>
       = (Inr (JObj [(''isAdmin'', JBool False), (''name'', JStr ''Yoda''),
                     (''_id'', ObjectId 0)]),
          \<lparr>store = put_coll ''users''
                     [[(''isAdmin'', JBool False), (''name'', JStr ''Yoda''),
                       (''_id'', ObjectId 0)]]
                     \<lparr>colls = (\<lambda>_. []), next_id = 1\<rparr>,
           events = [Driver (InsertOne ''users''
                       [(''isAdmin'', JBool False), (''name'', JStr ''Yoda'')] Undefined)]\<rparr>)
   \<and> createMany (mongo field_eq) ''users'' admin_defaults
        [[(''name'', JStr ''Yoda'')], [(''name'', JStr ''Vader''), (''isAdmin'', JBool True)]]
        Undefined \<lparr>store = empty_db, events = []\<rparr>
       = (Inr [ObjectId 0, ObjectId 1],
          \<lparr>store = put_coll ''users''
                     [[(''isAdmin'', JBool False), (''name'', JStr ''Yoda''),
                       (''_id'', ObjectId 0)],
                      [(''isAdmin'', JBool True), (''name'', JStr ''Vader''),
                       (''_id'', ObjectId 1)]]
                     \<lparr>colls = (\<lambda>_. []), next_id = 2\<rparr>,
           events = [Driver (InsertMany ''users''
                       [[(''isAdmin'', JBool False), (''name'', JStr ''Yoda'')],
                        [(''isAdmin'', JBool True), (''name'', JStr ''Vader'')]] Undefined)]\<rparr>)
   \<and> default_merge (defaults admin_defaults) [(''name'', JStr ''Yoda'')] ''isAdmin''
       = Some (JBool False)
   \<and> get_prop (inputWithDefaults (defaults admin_defaults)
         [(''name'', JStr ''Vader''), (''isAdmin'', JBool True)]) ''isAdmin'' = Some (JBool True)
   \<and> colls (store (snd (createOne (mongo field_eq) ''users'' empty_config
         [(''name'', JStr ''Yoda'')] Undefined \<lparr>store = empty_db, events = []\<rparr>))) ''users''
       = [[(''name'', JStr ''Yoda''), (''_id'', ObjectId 0)]]"
proof -
  let ?w = "\<lparr>store = empty_db, events = []\<rparr>"
  have m1: "inputWithDefaults (defaults admin_defaults) [(''name'', JStr ''Yoda'')]
              = [(''isAdmin'', JBool False), (''name'', JStr ''Yoda'')]"
    and m2: "inputWithDefaults (defaults admin_defaults)
               [(''name'', JStr ''Vader''), (''isAdmin'', JBool True)]
              = [(''isAdmin'', JBool True), (''name'', JStr ''Vader'')]"
    by (simp_all add: admin_defaults_def inputWithDefaults_def spread_def)
  have i1: "db_insertOne (mongo field_eq) ''users''
              [(''isAdmin'', JBool False), (''name'', JStr ''Yoda'')] Undefined empty_db
            = (Inr \<lparr>ops = Some [JObj [(''isAdmin'', JBool False), (''name'', JStr ''Yoda''),
                                       (''_id'', ObjectId 0)]], ok = 1\<rparr>,
               put_coll ''users''
                 [[(''isAdmin'', JBool False), (''name'', JStr ''Yoda''), (''_id'', ObjectId 0)]]
                 \<lparr>colls = (\<lambda>_. []), next_id = 1\<rparr>)"
    by (simp add: mongo_defs example_defs)
  have i2: "db_insertMany (mongo field_eq) ''users''
              [[(''isAdmin'', JBool False), (''name'', JStr ''Yoda'')],
               [(''isAdmin'', JBool True), (''name'', JStr ''Vader'')]] Undefined empty_db
            = (Inr \<lparr>insertedIds = [(0, ObjectId 0), (1, ObjectId 1)]\<rparr>,
               put_coll ''users''
                 [[(''isAdmin'', JBool False), (''name'', JStr ''Yoda''), (''_id'', ObjectId 0)],
                  [(''isAdmin'', JBool True), (''name'', JStr ''Vader''), (''_id'', ObjectId 1)]]
                 \<lparr>colls = (\<lambda>_. []), next_id = 2\<rparr>)"
    by (simp add: mongo_defs example_defs enumerate_simps)
  have i3: "db_insertOne (mongo field_eq) ''users'' [(''name'', JStr ''Yoda'')] Undefined empty_db
            = (Inr \<lparr>ops = Some [JObj [(''name'', JStr ''Yoda''), (''_id'', ObjectId 0)]],
                     ok = 1\<rparr>,
               put_coll ''users'' [[(''name'', JStr ''Yoda''), (''_id'', ObjectId 0)]]
                 \<lparr>colls = (\<lambda>_. []), next_id = 1\<rparr>)"
    by (simp add: mongo_defs example_defs)
  have nh: "configured_hook admin_defaults postCreateHook = None"
    "configured_hook (empty_config :: mongo_state CollectionConfig) postCreateHook = None"
    by (simp_all add: configured_hook_def admin_defaults_def empty_config_def)
  have e: "inputWithDefaults (defaults (empty_config :: mongo_state CollectionConfig))
             [(''name'', JStr ''Yoda'')] = [(''name'', JStr ''Yoda'')]"
    by (simp add: empty_config_def inputWithDefaults_def)
  have wf: "\<forall>i \<in> set ([(''name'', JStr ''Yoda'')] #
              [[(''name'', JStr ''Yoda'')], [(''name'', JStr ''Vader''), (''isAdmin'', JBool True)]]).
              wf_doc i"
    "\<forall>i \<in> set ([(''name'', JStr ''Yoda'')] # []). wf_doc i"
    by (simp_all add: wf_doc_def)
  have wd: "case defaults admin_defaults of None \<Rightarrow> True | Some d \<Rightarrow> wf_doc d"
    "case defaults (empty_config :: mongo_state CollectionConfig) of
       None \<Rightarrow> True | Some d \<Rightarrow> wf_doc d"
    by (simp_all add: admin_defaults_def empty_config_def wf_doc_def)
  note with_defaults =
    default_merge_inserted [OF wf(1) wd(1), of "mongo field_eq" "''users''" Undefined ?w]
  note without =
    default_merge_inserted [OF wf(2) wd(2), of "mongo field_eq" "''users''" Undefined ?w]
  have one: "createOne (mongo field_eq) ''users'' admin_defaults [(''name'', JStr ''Yoda'')]
               Undefined ?w
       = (Inr (JObj [(''isAdmin'', JBool False), (''name'', JStr ''Yoda''),
                     (''_id'', ObjectId 0)]),
          \<lparr>store = put_coll ''users''
                     [[(''isAdmin'', JBool False), (''name'', JStr ''Yoda''),
                       (''_id'', ObjectId 0)]]
                     \<lparr>colls = (\<lambda>_. []), next_id = 1\<rparr>,
           events = [Driver (InsertOne ''users''
                       [(''isAdmin'', JBool False), (''name'', JStr ''Yoda'')] Undefined)]\<rparr>)"
    using with_defaults [THEN conjunct1]
    by (simp add: m1 i1 nh newDocument_def first_elem_def)
  have many: "createMany (mongo field_eq) ''users'' admin_defaults
        [[(''name'', JStr ''Yoda'')], [(''name'', JStr ''Vader''), (''isAdmin'', JBool True)]]
        Undefined ?w
       = (Inr [ObjectId 0, ObjectId 1],
          \<lparr>store = put_coll ''users''
                     [[(''isAdmin'', JBool False), (''name'', JStr ''Yoda''),
                       (''_id'', ObjectId 0)],
                      [(''isAdmin'', JBool True), (''name'', JStr ''Vader''),
                       (''_id'', ObjectId 1)]]
                     \<lparr>colls = (\<lambda>_. []), next_id = 2\<rparr>,
           events = [Driver (InsertMany ''users''
                       [[(''isAdmin'', JBool False), (''name'', JStr ''Yoda'')],
                        [(''isAdmin'', JBool True), (''name'', JStr ''Vader'')]] Undefined)]\<rparr>)"
    using with_defaults [THEN conjunct2, THEN conjunct1]
    by (simp add: m1 m2 i2 Object_values_def)
  have raw: "colls (store (snd (createOne (mongo field_eq) ''users'' empty_config
         [(''name'', JStr ''Yoda'')] Undefined ?w))) ''users''
       = [[(''name'', JStr ''Yoda''), (''_id'', ObjectId 0)]]"
    using without [THEN conjunct1]
    by (simp add: e i3 nh newDocument_def first_elem_def put_coll_def)
  have dm: "default_merge (defaults admin_defaults) [(''name'', JStr ''Yoda'')] ''isAdmin''
       = Some (JBool False)"
    by (simp add: default_merge_def admin_defaults_def)
  have gp: "get_prop (inputWithDefaults (defaults admin_defaults)
         [(''name'', JStr ''Vader''), (''isAdmin'', JBool True)]) ''isAdmin'' = Some (JBool True)"
    by (simp add: m2 get_prop_def)
  from one many raw dm gp show ?thesis
    by (simp add: wf_doc_def)
qed


section \<open>Hooks of the create operations\<close>

text \<open>
  C3. When \<^verbatim>\<open>createOne\<close> resolves with a document and a post-create hook is configured,
  the call added exactly one hook invocation to the log, of the post-create hook with the
  very document \<^verbatim>\<open>createOne\<close> returns; it is the last thing the call did, the hook ran on
  the state the insert left, resolved, and the state returned to the caller is the state
  the hook left. \<^verbatim>\<open>createMany\<close> adds no hook invocation, whatever is configured and
  however many documents it inserts.
\<close>

theorem createOne_hook_once:
  "(createOne database name cfg input options w = (Inr d, w') \<longrightarrow>
    configured_hook cfg postCreateHook = Some h \<longrightarrow>
      hook_calls (events w') = hook_calls (events w) @ [(PostCreate, d)]
      \<and> events w' = events w @
          [Driver (InsertOne name (inputWithDefaults (defaults cfg) input) options),
           Hook PostCreate d]
      \<and> h d (snd (db_insertOne database name (inputWithDefaults (defaults cfg) input) options
                    (store w))) = (Inr (), store w'))
   \<and> hook_calls (events (snd (createMany database name cfg inputs options w)))
       = hook_calls (events w)"
proof (intro conjI impI)
  assume run: "createOne database name cfg input options w = (Inr d, w')"
    and hook: "configured_hook cfg postCreateHook = Some h"
  obtain r s1 where ins:
    "db_insertOne database name (inputWithDefaults (defaults cfg) input) options (store w)
       = (r, s1)"
    by (cases "db_insertOne database name (inputWithDefaults (defaults cfg) input) options
                 (store w)")
  obtain u s2 where hk: "h (newDocument (projr r)) s1 = (u, s2)"
    by (cases "h (newDocument (projr r)) s1")
  from run hook ins hk
  have facts: "d = newDocument (projr r) \<and> u = Inr () \<and>
               w' = \<lparr>store = s2, events = events w @
                 [Driver (InsertOne name (inputWithDefaults (defaults cfg) input) options),
                  Hook PostCreate d]\<rparr>"
    by (cases r; cases u)
       (auto simp: createOne_def await_def call_driver_def call_hook_def resolve_def
          reject_def Let_def split: if_splits)
  from facts show "hook_calls (events w') = hook_calls (events w) @ [(PostCreate, d)]"
    by (simp add: hook_calls_def)
  from facts show "events w' = events w @
          [Driver (InsertOne name (inputWithDefaults (defaults cfg) input) options),
           Hook PostCreate d]"
    by simp
  from facts ins hk
  show "h d (snd (db_insertOne database name (inputWithDefaults (defaults cfg) input) options
                    (store w))) = (Inr (), store w')"
    by simp
next
  show "hook_calls (events (snd (createMany database name cfg inputs options w)))
       = hook_calls (events w)"
    by (simp add: createMany_events hook_calls_def)
qed

theorem createOne_hook_once_witness:
  "createOne (mongo field_eq) ''users'' audit_hooks [(''name'', JStr ''Yoda'')] Undefined
      \<lparr>store = empty_db, events = []\<rparr>
     = (Inr (JObj [(''name'', JStr ''Yoda''), (''_id'', ObjectId 0)]),
        \<lparr>store = \<lparr>colls = (\<lambda>_. [])
                    (''users'' := [[(''name'', JStr ''Yoda''), (''_id'', ObjectId 0)]],
                     ''audit'' := [[(''seen'',
                        JObj [(''name'', JStr ''Yoda''), (''_id'', ObjectId 0)])]]),
                  next_id = 1\<rparr>,
          events = [Driver (InsertOne ''users'' [(''name'', JStr ''Yoda'')] Undefined),
                    Hook PostCreate (JObj [(''name'', JStr ''Yoda''), (''_id'', ObjectId 0)])]\<rparr>)
   \<and> configured_hook audit_hooks postCreateHook = Some audit_hook
   \<and> hook_calls [Driver (InsertOne ''users'' [(''name'', JStr ''Yoda'')] Undefined),
                  Hook PostCreate (JObj [(''name'', JStr ''Yoda''), (''_id'', ObjectId 0)])]
       = [(PostCreate, JObj [(''name'', JStr ''Yoda''), (''_id'', ObjectId 0)])]
   \<and> hook_calls (events (snd (createMany (mongo field_eq) ''users'' audit_hooks
         [[(''name'', JStr ''A'')], [(''name'', JStr ''B'')]] Undefined
         \<lparr>store = empty_db, events = []\<rparr>))) = []"
proof -
  let ?d = "JObj [(''name'', JStr ''Yoda''), (''_id'', ObjectId 0)]"
  let ?w' = "\<lparr>store = \<lparr>colls = (\<lambda>_. [])
                    (''users'' := [[(''name'', JStr ''Yoda''), (''_id'', ObjectId 0)]],
                     ''audit'' := [[(''seen'', ?d)]]),
                  next_id = 1\<rparr>,
          events = [Driver (InsertOne ''users'' [(''name'', JStr ''Yoda'')] Undefined),
                    Hook PostCreate ?d]\<rparr>"
  have run: "createOne (mongo field_eq) ''users'' audit_hooks [(''name'', JStr ''Yoda'')]
               Undefined \<lparr>store = empty_db, events = []\<rparr> = (Inr ?d, ?w')"
    by (simp add: run_defs mongo_defs example_defs fun_upd_twist)
  have hook: "configured_hook audit_hooks postCreateHook = Some audit_hook"
    by (simp add: configured_hook_def audit_hooks_def)
  from createOne_hook_once [of "mongo field_eq" "''users''" audit_hooks
      "[(''name'', JStr ''Yoda'')]" Undefined "\<lparr>store = empty_db, events = []\<rparr>" ?d ?w'
      audit_hook "[[(''name'', JStr ''A'')], [(''name'', JStr ''B'')]]"] run hook
  show ?thesis by (simp add: hook_calls_def)
qed


section \<open>A hook that fails after the write\<close>

text \<open>
  C4. For \<^verbatim>\<open>createOne\<close>, \<^verbatim>\<open>updateOne\<close> and \<^verbatim>\<open>deleteOne\<close>: when the driver's write has
  resolved with a document and the configured hook then rejects, the operation rejects
  with the hook's reason, and the world it leaves is the one the hook left on top of the
  committed write: the log holds the one driver call and the hook call and nothing after
  them, so nothing is undone or retried.
\<close>

theorem hook_failure_after_commit:
  "(db_insertOne database name (inputWithDefaults (defaults cfg) input) options (store w)
       = (Inr r, s1) \<longrightarrow>
    truthy (newDocument r) \<longrightarrow>
    configured_hook cfg postCreateHook = Some h \<longrightarrow>
    h (newDocument r) s1 = (Inl reason, s2) \<longrightarrow>
      createOne database name cfg input options w =
        (Inl (HookError reason),
         \<lparr>store = s2,
          events = events w @
            [Driver (InsertOne name (inputWithDefaults (defaults cfg) input) options),
             Hook PostCreate (newDocument r)]\<rparr>))
   \<and> (db_findOneAndUpdate database name query (set_update update) options (store w)
       = (Inr fr, s1) \<longrightarrow>
    truthy (fm_value fr) \<longrightarrow>
    configured_hook cfg postUpdateHook = Some h \<longrightarrow>
    h (fm_value fr) s1 = (Inl reason, s2) \<longrightarrow>
      updateOne database name cfg query update options w =
        (Inl (HookError reason),
         \<lparr>store = s2,
          events = events w @
            [Driver (FindOneAndUpdate name query (set_update update) options),
             Hook PostUpdate (fm_value fr)]\<rparr>))
   \<and> (db_findOneAndDelete database name query options (store w) = (Inr fr, s1) \<longrightarrow>
    truthy (fm_value fr) \<longrightarrow>
    configured_hook cfg postDeleteHook = Some h \<longrightarrow>
    h (fm_value fr) s1 = (Inl reason, s2) \<longrightarrow>
      deleteOne database name cfg query options w =
        (Inl (HookError reason),
         \<lparr>store = s2,
          events = events w @
            [Driver (FindOneAndDelete name query options),
             Hook PostDelete (fm_value fr)]\<rparr>))"
proof (intro conjI impI)
  assume "db_insertOne database name (inputWithDefaults (defaults cfg) input) options (store w)
            = (Inr r, s1)"
    and "truthy (newDocument r)"
    and "configured_hook cfg postCreateHook = Some h"
    and "h (newDocument r) s1 = (Inl reason, s2)"
  then show "createOne database name cfg input options w =
        (Inl (HookError reason),
         \<lparr>store = s2,
          events = events w @
            [Driver (InsertOne name (inputWithDefaults (defaults cfg) input) options),
             Hook PostCreate (newDocument r)]\<rparr>)"
    by (simp add: createOne_def Let_def await_def call_driver_def call_hook_def)
next
  assume "db_findOneAndUpdate database name query (set_update update) options (store w)
            = (Inr fr, s1)"
    and "truthy (fm_value fr)"
    and "configured_hook cfg postUpdateHook = Some h"
    and "h (fm_value fr) s1 = (Inl reason, s2)"
  then show "updateOne database name cfg query update options w =
        (Inl (HookError reason),
         \<lparr>store = s2,
          events = events w @
            [Driver (FindOneAndUpdate name query (set_update update) options),
             Hook PostUpdate (fm_value fr)]\<rparr>)"
    by (simp add: updateOne_def Let_def await_def call_driver_def call_hook_def)
next
  assume "db_findOneAndDelete database name query options (store w) = (Inr fr, s1)"
    and "truthy (fm_value fr)"
    and "configured_hook cfg postDeleteHook = Some h"
    and "h (fm_value fr) s1 = (Inl reason, s2)"
  then show "deleteOne database name cfg query options w =
        (Inl (HookError reason),
         \<lparr>store = s2,
          events = events w @
            [Driver (FindOneAndDelete name query options),
             Hook PostDelete (fm_value fr)]\<rparr>)"
    by (simp add: deleteOne_def Let_def await_def call_driver_def call_hook_def)
qed

theorem hook_failure_after_commit_witness:
  "createOne (mongo field_eq) ''users'' failing_hooks [(''name'', JStr ''Yoda'')] Undefined
      \<lparr>store = empty_db, events = []\<rparr>
     = (Inl (HookError (JStr ''hook failed'')),
        \<lparr>store = put_coll ''users'' [[(''name'', JStr ''Yoda''), (''_id'', ObjectId 0)]]
                   \<lparr>colls = (\<lambda>_. []), next_id = 1\<rparr>,
         events = [Driver (InsertOne ''users'' [(''name'', JStr ''Yoda'')] Undefined),
                   Hook PostCreate (JObj [(''name'', JStr ''Yoda''), (''_id'', ObjectId 0)])]\<rparr>)
   \<and> updateOne (mongo field_eq) ''users'' failing_hooks (JObj [(''name'', JStr ''Yoda'')])
        [(''isAdmin'', JBool True)] Undefined \<lparr>store = users_db, events = []\<rparr>
     = (Inl (HookError (JStr ''hook failed'')),
        \<lparr>store = put_coll ''users'' [yoda_admin, vader] users_db,
         events = [Driver (FindOneAndUpdate ''users'' (JObj [(''name'', JStr ''Yoda'')])
                     (set_update [(''isAdmin'', JBool True)]) Undefined),
                   Hook PostUpdate (JObj yoda)]\<rparr>)
   \<and> deleteOne (mongo field_eq) ''users'' failing_hooks (JObj [(''name'', JStr ''Yoda'')])
        Undefined \<lparr>store = users_db, events = []\<rparr>
     = (Inl (HookError (JStr ''hook failed'')),
        \<lparr>store = put_coll ''users'' [vader] users_db,
         events = [Driver (FindOneAndDelete ''users'' (JObj [(''name'', JStr ''Yoda'')])
                     Undefined),
                   Hook PostDelete (JObj yoda)]\<rparr>)"
proof -
  let ?new = "[(''name'', JStr ''Yoda''), (''_id'', ObjectId 0)]"
  let ?q = "JObj [(''name'', JStr ''Yoda'')]"
  have hook: "configured_hook failing_hooks postCreateHook = Some failing_hook"
    "configured_hook failing_hooks postUpdateHook = Some failing_hook"
    "configured_hook failing_hooks postDeleteHook = Some failing_hook"
    by (simp_all add: configured_hook_def failing_hooks_def)
  have fails: "\<And>d s. failing_hook d s = (Inl (JStr ''hook failed''), s)"
    by (simp add: failing_hook_def)
  have ins: "db_insertOne (mongo field_eq) ''users''
               (inputWithDefaults (defaults failing_hooks) [(''name'', JStr ''Yoda'')]) Undefined
               (store \<lparr>store = empty_db, events = []\<rparr>)
             = (Inr \<lparr>ops = Some [JObj ?new], ok = 1\<rparr>,
                put_coll ''users'' [?new] \<lparr>colls = (\<lambda>_. []), next_id = 1\<rparr>)"
    by (simp add: mongo_defs example_defs)
  have new: "newDocument \<lparr>ops = Some [JObj ?new], ok = 1\<rparr> = JObj ?new"
    by (simp add: newDocument_def first_elem_def)
  have upd: "db_findOneAndUpdate (mongo field_eq) ''users'' ?q
               (set_update [(''isAdmin'', JBool True)]) Undefined
               (store \<lparr>store = users_db, events = []\<rparr>)
             = (Inr \<lparr>fm_value = JObj yoda\<rparr>, put_coll ''users'' [yoda_admin, vader] users_db)"
    by (simp add: mongo_defs example_defs)
  have del: "db_findOneAndDelete (mongo field_eq) ''users'' ?q Undefined
               (store \<lparr>store = users_db, events = []\<rparr>)
             = (Inr \<lparr>fm_value = JObj yoda\<rparr>, put_coll ''users'' [vader] users_db)"
    by (simp add: mongo_defs example_defs)
  have c: "createOne (mongo field_eq) ''users'' failing_hooks [(''name'', JStr ''Yoda'')]
             Undefined \<lparr>store = empty_db, events = []\<rparr>
           = (Inl (HookError (JStr ''hook failed'')),
              \<lparr>store = put_coll ''users'' [?new] \<lparr>colls = (\<lambda>_. []), next_id = 1\<rparr>,
               events = [Driver (InsertOne ''users'' [(''name'', JStr ''Yoda'')] Undefined),
                         Hook PostCreate (JObj ?new)]\<rparr>)"
    using hook_failure_after_commit [THEN conjunct1, rule_format, OF ins _ hook(1) fails]
    by (simp add: new inputWithDefaults_def failing_hooks_def)
  have u: "updateOne (mongo field_eq) ''users'' failing_hooks ?q
             [(''isAdmin'', JBool True)] Undefined \<lparr>store = users_db, events = []\<rparr>
           = (Inl (HookError (JStr ''hook failed'')),
              \<lparr>store = put_coll ''users'' [yoda_admin, vader] users_db,
               events = [Driver (FindOneAndUpdate ''users'' ?q
                           (set_update [(''isAdmin'', JBool True)]) Undefined),
                         Hook PostUpdate (JObj yoda)]\<rparr>)"
    using hook_failure_after_commit [THEN conjunct2, THEN conjunct1, rule_format,
        OF upd _ hook(2) fails]
    by simp
  have d: "deleteOne (mongo field_eq) ''users'' failing_hooks ?q Undefined
             \<lparr>store = users_db, events = []\<rparr>
           = (Inl (HookError (JStr ''hook failed'')),
              \<lparr>store = put_coll ''users'' [vader] users_db,
               events = [Driver (FindOneAndDelete ''users'' ?q Undefined),
                         Hook PostDelete (JObj yoda)]\<rparr>)"
    using hook_failure_after_commit [THEN conjunct2, THEN conjunct2, rule_format,
        OF del _ hook(3) fails]
    by simp
  from c u d show ?thesis by simp
qed


section \<open>No matching document\<close>

text \<open>
  C5. When the driver reports no match (\<^verbatim>\<open>null\<close>), \<^verbatim>\<open>readOne\<close>, \<^verbatim>\<open>updateOne\<close> and
  \<^verbatim>\<open>deleteOne\<close> resolve with \<^verbatim>\<open>null\<close>, they do not reject, and the only thing they did
  is the one driver call: no hook is invoked, whatever hooks are configured.
\<close>

theorem not_found_is_null:
  "(db_findOne database name query options (store w) = (Inr Null, s1) \<longrightarrow>
      readOne database name cfg query options w =
        (Inr Null, \<lparr>store = s1, events = events w @ [Driver (FindOne name query options)]\<rparr>))
   \<and> (db_findOneAndUpdate database name query (set_update update) options (store w)
         = (Inr fr, s1) \<longrightarrow>
      fm_value fr = Null \<longrightarrow>
      updateOne database name cfg query update options w =
        (Inr Null,
         \<lparr>store = s1,
          events = events w @
            [Driver (FindOneAndUpdate name query (set_update update) options)]\<rparr>))
   \<and> (db_findOneAndDelete database name query options (store w) = (Inr fr, s1) \<longrightarrow>
      fm_value fr = Null \<longrightarrow>
      deleteOne database name cfg query options w =
        (Inr Null,
         \<lparr>store = s1, events = events w @ [Driver (FindOneAndDelete name query options)]\<rparr>))"
  by (simp add: readOne_def updateOne_def deleteOne_def Let_def await_def call_driver_def
        resolve_def split: option.splits)

theorem not_found_is_null_witness:
  "db_findOne (mongo field_eq) ''users'' (JObj [(''name'', JStr ''nobody'')]) Undefined users_db
     = (Inr Null, users_db)
   \<and> readOne (mongo field_eq) ''users'' audit_hooks (JObj [(''name'', JStr ''nobody'')])
        Undefined \<lparr>store = users_db, events = []\<rparr>
     = (Inr Null,
        \<lparr>store = users_db,
         events = [Driver (FindOne ''users'' (JObj [(''name'', JStr ''nobody'')]) Undefined)]\<rparr>)
   \<and> updateOne (mongo field_eq) ''users'' audit_hooks (JObj [(''name'', JStr ''nobody'')])
        [(''isAdmin'', JBool True)] Undefined \<lparr>store = users_db, events = []\<rparr>
     = (Inr Null,
        \<lparr>store = users_db,
         events = [Driver (FindOneAndUpdate ''users'' (JObj [(''name'', JStr ''nobody'')])
                     (set_update [(''isAdmin'', JBool True)]) Undefined)]\<rparr>)
   \<and> deleteOne (mongo field_eq) ''users'' audit_hooks (JObj [(''name'', JStr ''nobody'')])
        Undefined \<lparr>store = users_db, events = []\<rparr>
     = (Inr Null,
        \<lparr>store = users_db,
         events = [Driver (FindOneAndDelete ''users'' (JObj [(''name'', JStr ''nobody'')])
                     Undefined)]\<rparr>)"
proof -
  let ?q = "JObj [(''name'', JStr ''nobody'')]"
  have none: "filter (field_eq ?q) (colls users_db ''users'') = []"
    by (simp add: field_eq_def example_defs)
  note nf = mongo_not_found [where M = field_eq and query = ?q and s = users_db, OF none]
  from not_found_is_null [of "mongo field_eq" "''users''" ?q Undefined
      "\<lparr>store = users_db, events = []\<rparr>" users_db audit_hooks "[(''isAdmin'', JBool True)]"
      "\<lparr>fm_value = Null\<rparr>"] nf
  show ?thesis by simp
qed


section \<open>CreationError\<close>

text \<open>
  C6, as amended. \<^verbatim>\<open>createOne\<close> rejects with the CreationError exactly when the insert
  resolved and reported no created document: \<^verbatim>\<open>ops\<close> is missing, \<^verbatim>\<open>result.ok\<close> is zero,
  or \<^verbatim>\<open>ops\<close> has no truthy first element. Whatever \<^verbatim>\<open>createOne\<close> resolves with is the
  truthy first element of \<^verbatim>\<open>ops\<close> of an insert that reported \<^verbatim>\<open>ok\<close>, never a sentinel.
  When the insert reported such a document, \<^verbatim>\<open>createOne\<close> resolves with it if no
  post-create hook is configured or the hook resolves, and rejects with the hook's reason
  if the hook rejects. On the reference database the document it resolves with carries an
  \<^verbatim>\<open>_id\<close> that is neither \<^verbatim>\<open>null\<close> nor \<^verbatim>\<open>undefined\<close>.
\<close>

theorem createOne_creation_error:
  "(fst (createOne database name cfg input options w) = Inl (CreationError msg) \<longleftrightarrow>
      msg = creation_message \<and>
      (\<exists>r s1. db_insertOne database name (inputWithDefaults (defaults cfg) input) options
                 (store w) = (Inr r, s1) \<and>
               (case ops r of
                  None \<Rightarrow> True
                | Some docs \<Rightarrow>
                    ok r = 0 \<or> (case docs of [] \<Rightarrow> True | d # rest \<Rightarrow> \<not> truthy d))))
   \<and> (\<forall>d. fst (createOne database name cfg input options w) = Inr d \<longrightarrow>
         truthy d \<and>
         (\<exists>r s1 rest. db_insertOne database name (inputWithDefaults (defaults cfg) input) options
                    (store w) = (Inr r, s1) \<and> ops r = Some (d # rest) \<and> ok r \<noteq> 0))
   \<and> (db_insertOne database name (inputWithDefaults (defaults cfg) input) options (store w)
        = (Inr r, s1) \<longrightarrow>
      ops r = Some (d # rest) \<longrightarrow> ok r \<noteq> 0 \<longrightarrow> truthy d \<longrightarrow>
      fst (createOne database name cfg input options w) =
        (case configured_hook cfg postCreateHook of
           None \<Rightarrow> Inr d
         | Some h \<Rightarrow>
             (case fst (h d s1) of Inl reason \<Rightarrow> Inl (HookError reason) | Inr u \<Rightarrow> Inr d)))
   \<and> (\<forall>v. fst (createOne (mongo M) name mcfg input options mw) = Inr v \<longrightarrow>
         (\<exists>ps i. v = JObj ps \<and> get_prop ps ''_id'' = Some i \<and> i \<noteq> Null \<and> i \<noteq> Undefined))"
proof -
  let ?merged = "inputWithDefaults (defaults cfg) input"
  have falsy: "\<And>r. \<not> truthy (newDocument r) \<longleftrightarrow>
      (case ops r of
         None \<Rightarrow> True
       | Some docs \<Rightarrow> ok r = 0 \<or> (case docs of [] \<Rightarrow> True | d # rest \<Rightarrow> \<not> truthy d))"
    by (auto simp: newDocument_def first_elem_def split: option.splits list.splits)
  have truthy_new: "\<And>r d. truthy (newDocument r) \<Longrightarrow> d = newDocument r \<Longrightarrow>
      \<exists>rest. ops r = Some (d # rest) \<and> ok r \<noteq> 0"
    by (auto simp: newDocument_def first_elem_def split: option.splits list.splits if_splits)
  have new_eq: "\<And>r d rest. ops r = Some (d # rest) \<Longrightarrow> ok r \<noteq> 0 \<Longrightarrow> newDocument r = d"
    by (simp add: newDocument_def first_elem_def)
  obtain x s1' where ins: "db_insertOne database name ?merged options (store w) = (x, s1')"
    by (cases "db_insertOne database name ?merged options (store w)")
  have general:
    "(fst (createOne database name cfg input options w) = Inl (CreationError msg) \<longleftrightarrow>
        msg = creation_message \<and>
        (\<exists>r s1. db_insertOne database name ?merged options (store w) = (Inr r, s1) \<and>
                 \<not> truthy (newDocument r)))
     \<and> (\<forall>d. fst (createOne database name cfg input options w) = Inr d \<longrightarrow>
           truthy d \<and>
           (\<exists>r s1. db_insertOne database name ?merged options (store w) = (Inr r, s1) \<and>
                    truthy (newDocument r) \<and> d = newDocument r))
     \<and> (db_insertOne database name ?merged options (store w) = (Inr r, s1) \<longrightarrow>
        truthy (newDocument r) \<longrightarrow>
        fst (createOne database name cfg input options w) =
          (case configured_hook cfg postCreateHook of
             None \<Rightarrow> Inr (newDocument r)
           | Some h \<Rightarrow>
               (case fst (h (newDocument r) s1) of
                  Inl reason \<Rightarrow> Inl (HookError reason)
                | Inr u \<Rightarrow> Inr (newDocument r))))"
  proof (cases x)
    case (Inl reason)
    with ins show ?thesis
      by (simp add: createOne_def Let_def await_def call_driver_def)
  next
    case (Inr res)
    show ?thesis
    proof (cases "truthy (newDocument res)")
      case False
      with ins Inr show ?thesis
        by (auto simp: createOne_def Let_def await_def call_driver_def reject_def)
    next
      case True
      show ?thesis
      proof (cases "configured_hook cfg postCreateHook")
        case None
        with ins Inr True show ?thesis
          by (auto simp: createOne_def Let_def await_def call_driver_def resolve_def)
      next
        case (Some h)
        obtain u s2 where hk: "h (newDocument res) s1' = (u, s2)"
          by (cases "h (newDocument res) s1'")
        with ins Inr True Some show ?thesis
          by (cases u)
             (auto simp: createOne_def Let_def await_def call_driver_def call_hook_def
                resolve_def)
      qed
    qed
  qed
  have c1: "fst (createOne database name cfg input options w) = Inl (CreationError msg) \<longleftrightarrow>
      msg = creation_message \<and>
      (\<exists>r s1. db_insertOne database name ?merged options (store w) = (Inr r, s1) \<and>
               (case ops r of
                  None \<Rightarrow> True
                | Some docs \<Rightarrow>
                    ok r = 0 \<or> (case docs of [] \<Rightarrow> True | d # rest \<Rightarrow> \<not> truthy d)))"
    using general [THEN conjunct1] by (simp only: falsy)
  have c2: "\<forall>d. fst (createOne database name cfg input options w) = Inr d \<longrightarrow>
         truthy d \<and>
         (\<exists>r s1 rest. db_insertOne database name ?merged options (store w) = (Inr r, s1) \<and>
                       ops r = Some (d # rest) \<and> ok r \<noteq> 0)"
  proof (intro allI impI)
    fix d assume "fst (createOne database name cfg input options w) = Inr d"
    with general [THEN conjunct2, THEN conjunct1] obtain r0 s0 where
      d: "truthy d" and i: "db_insertOne database name ?merged options (store w) = (Inr r0, s0)"
      and t: "truthy (newDocument r0)" and e: "d = newDocument r0"
      by blast
    from truthy_new [OF t e] obtain rest where "ops r0 = Some (d # rest) \<and> ok r0 \<noteq> 0" ..
    with d i show "truthy d \<and>
         (\<exists>r s1 rest. db_insertOne database name ?merged options (store w) = (Inr r, s1) \<and>
                       ops r = Some (d # rest) \<and> ok r \<noteq> 0)"
      by blast
  qed
  have c3: "db_insertOne database name ?merged options (store w) = (Inr r, s1) \<longrightarrow>
      ops r = Some (d # rest) \<longrightarrow> ok r \<noteq> 0 \<longrightarrow> truthy d \<longrightarrow>
      fst (createOne database name cfg input options w) =
        (case configured_hook cfg postCreateHook of
           None \<Rightarrow> Inr d
         | Some h \<Rightarrow>
             (case fst (h d s1) of Inl reason \<Rightarrow> Inl (HookError reason) | Inr u \<Rightarrow> Inr d))"
  proof (intro impI)
    assume i: "db_insertOne database name ?merged options (store w) = (Inr r, s1)"
      and o: "ops r = Some (d # rest)" and k: "ok r \<noteq> 0" and t: "truthy d"
    have n: "newDocument r = d" by (rule new_eq [OF o k])
    with t have t': "truthy (newDocument r)" by simp
    from general [THEN conjunct2, THEN conjunct2, rule_format, OF i t']
    show "fst (createOne database name cfg input options w) =
        (case configured_hook cfg postCreateHook of
           None \<Rightarrow> Inr d
         | Some h \<Rightarrow>
             (case fst (h d s1) of Inl reason \<Rightarrow> Inl (HookError reason) | Inr u \<Rightarrow> Inr d))"
      by (simp only: n)
  qed
  have c4: "\<forall>v. fst (createOne (mongo M) name mcfg input options mw) = Inr v \<longrightarrow>
         (\<exists>ps i. v = JObj ps \<and> get_prop ps ''_id'' = Some i \<and> i \<noteq> Null \<and> i \<noteq> Undefined)"
  proof (intro allI impI)
    fix v assume run: "fst (createOne (mongo M) name mcfg input options mw) = Inr v"
    let ?d = "assign_id (next_id (store mw)) (inputWithDefaults (defaults mcfg) input)"
    from run have "v = JObj ?d"
      by (auto simp: createOne_def Let_def await_def call_driver_def call_hook_def resolve_def
            reject_def mongo_def m_insertOne_def newDocument_def first_elem_def
          split: option.splits prod.splits sum.splits if_splits)
    moreover obtain i where "map_of ?d ''_id'' = Some i" "i \<noteq> Null" "i \<noteq> Undefined"
      using assign_id_has_id [of "next_id (store mw)" "inputWithDefaults (defaults mcfg) input"]
      by blast
    ultimately show "\<exists>ps i. v = JObj ps \<and> get_prop ps ''_id'' = Some i \<and> i \<noteq> Null
                        \<and> i \<noteq> Undefined"
      by (auto simp: get_prop_def)
  qed
  from c1 c2 c3 c4 show ?thesis by blast
qed

theorem createOne_creation_error_witness:
  "fst (createOne no_ops_db ''users'' empty_config [(''name'', JStr ''Yoda'')] Undefined
          \<lparr>store = empty_db, events = []\<rparr>) = Inl (CreationError creation_message)
   \<and> fst (createOne not_ok_db ''users'' empty_config [(''name'', JStr ''Yoda'')] Undefined
            \<lparr>store = empty_db, events = []\<rparr>) = Inl (CreationError creation_message)
   \<and> fst (createOne (mongo field_eq) ''users'' empty_config [(''name'', JStr ''Yoda'')] Undefined
            \<lparr>store = empty_db, events = []\<rparr>)
       = Inr (JObj [(''name'', JStr ''Yoda''), (''_id'', ObjectId 0)])
   \<and> get_prop [(''name'', JStr ''Yoda''), (''_id'', ObjectId 0)] ''_id'' = Some (ObjectId 0)
   \<and> fst (createOne (mongo field_eq) ''users'' failing_hooks [(''name'', JStr ''Yoda'')]
            Undefined \<lparr>store = empty_db, events = []\<rparr>)
       = Inl (HookError (JStr ''hook failed''))"
proof -
  let ?in = "[(''name'', JStr ''Yoda'')]"
  let ?w = "\<lparr>store = empty_db, events = []\<rparr>"
  let ?new = "[(''name'', JStr ''Yoda''), (''_id'', ObjectId 0)]"
  let ?s1 = "put_coll ''users'' [?new] \<lparr>colls = (\<lambda>_. []), next_id = 1\<rparr>"
  have e: "inputWithDefaults (defaults (empty_config :: mongo_state CollectionConfig)) ?in = ?in"
    "inputWithDefaults (defaults failing_hooks) ?in = ?in"
    by (simp_all add: empty_config_def failing_hooks_def inputWithDefaults_def)
  have none: "\<exists>r s1. db_insertOne no_ops_db ''users''
              (inputWithDefaults (defaults empty_config) ?in) Undefined (store ?w) = (Inr r, s1)
            \<and> (case ops r of
                  None \<Rightarrow> True
                | Some docs \<Rightarrow>
                    ok r = 0 \<or> (case docs of [] \<Rightarrow> True | d # rest \<Rightarrow> \<not> truthy d))"
    by (intro exI [of _ "\<lparr>ops = Some [], ok = 1\<rparr>"] exI [of _ empty_db])
       (simp add: no_ops_db_def)
  have zero: "\<exists>r s1. db_insertOne not_ok_db ''users''
              (inputWithDefaults (defaults empty_config) ?in) Undefined (store ?w) = (Inr r, s1)
            \<and> (case ops r of
                  None \<Rightarrow> True
                | Some docs \<Rightarrow>
                    ok r = 0 \<or> (case docs of [] \<Rightarrow> True | d # rest \<Rightarrow> \<not> truthy d))"
    by (intro exI [of _ "\<lparr>ops = Some [JObj ?in], ok = 0\<rparr>"] exI [of _ empty_db])
       (simp add: not_ok_db_def empty_config_def inputWithDefaults_def)
  have a: "fst (createOne no_ops_db ''users'' empty_config ?in Undefined ?w)
             = Inl (CreationError creation_message)"
    using createOne_creation_error [of no_ops_db "''users''" empty_config ?in Undefined ?w
        creation_message, THEN conjunct1] none
    by blast
  have b: "fst (createOne not_ok_db ''users'' empty_config ?in Undefined ?w)
             = Inl (CreationError creation_message)"
    using createOne_creation_error [of not_ok_db "''users''" empty_config ?in Undefined ?w
        creation_message, THEN conjunct1] zero
    by blast
  have good: "db_insertOne (mongo field_eq) ''users''
                (inputWithDefaults (defaults empty_config) ?in) Undefined (store ?w)
              = (Inr \<lparr>ops = Some [JObj ?new], ok = 1\<rparr>, ?s1)"
    "db_insertOne (mongo field_eq) ''users''
                (inputWithDefaults (defaults failing_hooks) ?in) Undefined (store ?w)
              = (Inr \<lparr>ops = Some [JObj ?new], ok = 1\<rparr>, ?s1)"
    by (simp_all add: mongo_defs example_defs)
  have o: "ops \<lparr>ops = Some [JObj ?new], ok = 1\<rparr> = Some (JObj ?new # [])"
    and k: "ok \<lparr>ops = Some [JObj ?new], ok = 1\<rparr> \<noteq> 0"
    and t: "truthy (JObj ?new)"
    by simp_all
  have nohook: "configured_hook (empty_config :: mongo_state CollectionConfig) postCreateHook
                  = None"
    and hook: "configured_hook failing_hooks postCreateHook = Some failing_hook"
    by (simp_all add: configured_hook_def empty_config_def failing_hooks_def)
  have c: "fst (createOne (mongo field_eq) ''users'' empty_config ?in Undefined ?w)
             = Inr (JObj ?new)"
    using createOne_creation_error [THEN conjunct2, THEN conjunct2, THEN conjunct1,
        rule_format, OF good(1) o k t]
    by (simp add: nohook)
  have d: "fst (createOne (mongo field_eq) ''users'' failing_hooks ?in Undefined ?w)
             = Inl (HookError (JStr ''hook failed''))"
    using createOne_creation_error [THEN conjunct2, THEN conjunct2, THEN conjunct1,
        rule_format, OF good(2) o k t]
    by (simp add: hook failing_hook_def)
  have i: "get_prop ?new ''_id'' = Some (ObjectId 0)"
    by (simp add: get_prop_def)
  from a b c d i show ?thesis by simp
qed

text \<open>
  The claim as first worded has \<^verbatim>\<open>createOne\<close> return the created document whenever the
  insert reported one. With a post-create hook that rejects, the insert reports the
  document, and \<^verbatim>\<open>createOne\<close> neither returns it nor raises the CreationError: it rejects
  with the hook's reason.
\<close>

theorem createOne_hook_rejects_counterexample:
  "db_insertOne (mongo field_eq) ''users''
      (inputWithDefaults (defaults failing_hooks) [(''name'', JStr ''Yoda'')]) Undefined empty_db
     = (Inr \<lparr>ops = Some [JObj [(''name'', JStr ''Yoda''), (''_id'', ObjectId 0)]], ok = 1\<rparr>,
        put_coll ''users'' [[(''name'', JStr ''Yoda''), (''_id'', ObjectId 0)]]
          \<lparr>colls = (\<lambda>_. []), next_id = 1\<rparr>)
   \<and> fst (createOne (mongo field_eq) ''users'' failing_hooks [(''name'', JStr ''Yoda'')]
            Undefined \<lparr>store = empty_db, events = []\<rparr>)
       = Inl (HookError (JStr ''hook failed''))
   \<and> fst (createOne (mongo field_eq) ''users'' failing_hooks [(''name'', JStr ''Yoda'')]
            Undefined \<lparr>store = empty_db, events = []\<rparr>)
       \<noteq> Inr (JObj [(''name'', JStr ''Yoda''), (''_id'', ObjectId 0)])
   \<and> fst (createOne (mongo field_eq) ''users'' failing_hooks [(''name'', JStr ''Yoda'')]
            Undefined \<lparr>store = empty_db, events = []\<rparr>)
       \<noteq> Inl (CreationError creation_message)"
  by (simp add: run_defs mongo_defs example_defs)


section \<open>Counts of the bulk operations\<close>

text \<open>
  C7. \<^verbatim>\<open>updateMany\<close> resolves with the driver's \<^verbatim>\<open>matchedCount\<close> (not its
  \<^verbatim>\<open>modifiedCount\<close>), \<^verbatim>\<open>deleteMany\<close> with the driver's \<^verbatim>\<open>deletedCount\<close>; on the reference
  database both are the number of documents of the collection that match the query.
  Neither invokes a hook, whatever is configured.
\<close>

theorem many_return_matched_count:
  "(db_updateMany database name query (set_update update) options (store w) = (Inr ur, s1)
      \<longrightarrow> updateMany database name cfg query update options w =
        (Inr (matchedCount ur),
         \<lparr>store = s1,
          events = events w @ [Driver (UpdateMany name query (set_update update) options)]\<rparr>))
   \<and> (db_deleteMany database name query options (store w) = (Inr dr, s1')
      \<longrightarrow> deleteMany database name cfg query options w =
        (Inr (deletedCount dr),
         \<lparr>store = s1', events = events w @ [Driver (DeleteMany name query options)]\<rparr>))
   \<and> hook_calls (events (snd (updateMany database name cfg query update options w)))
       = hook_calls (events w)
   \<and> hook_calls (events (snd (deleteMany database name cfg query options w)))
       = hook_calls (events w)
   \<and> fst (updateMany (mongo M) name mcfg query update options mw)
       = Inr (length (filter (M query) (colls (store mw) name)))
   \<and> fst (deleteMany (mongo M) name mcfg query options mw)
       = Inr (length (filter (M query) (colls (store mw) name)))"
proof (intro conjI impI)
  assume "db_updateMany database name query (set_update update) options (store w) = (Inr ur, s1)"
  then show "updateMany database name cfg query update options w =
        (Inr (matchedCount ur),
         \<lparr>store = s1,
          events = events w @ [Driver (UpdateMany name query (set_update update) options)]\<rparr>)"
    by (simp add: updateMany_def await_def call_driver_def resolve_def)
next
  assume "db_deleteMany database name query options (store w) = (Inr dr, s1')"
  then show "deleteMany database name cfg query options w =
        (Inr (deletedCount dr),
         \<lparr>store = s1', events = events w @ [Driver (DeleteMany name query options)]\<rparr>)"
    by (simp add: deleteMany_def await_def call_driver_def resolve_def)
next
  show "hook_calls (events (snd (updateMany database name cfg query update options w)))
       = hook_calls (events w)"
    by (simp add: updateMany_def await_def call_driver_def resolve_def hook_calls_def
          split: prod.splits sum.splits)
next
  show "hook_calls (events (snd (deleteMany database name cfg query options w)))
       = hook_calls (events w)"
    by (simp add: deleteMany_def await_def call_driver_def resolve_def hook_calls_def
          split: prod.splits sum.splits)
next
  show "fst (updateMany (mongo M) name mcfg query update options mw)
       = Inr (length (filter (M query) (colls (store mw) name)))"
    by (simp add: updateMany_def await_def call_driver_def resolve_def mongo_def
          m_updateMany_def set_fields_def set_update_def Let_def)
next
  show "fst (deleteMany (mongo M) name mcfg query options mw)
       = Inr (length (filter (M query) (colls (store mw) name)))"
    by (simp add: deleteMany_def await_def call_driver_def resolve_def mongo_def
          m_deleteMany_def)
qed

theorem many_return_matched_count_witness:
  "db_updateMany (mongo field_eq) ''users'' (JObj []) (set_update [(''isAdmin'', JBool True)])
      Undefined users_db
     = (Inr \<lparr>matchedCount = 2, modifiedCount = 1\<rparr>,
        put_coll ''users'' [yoda_admin, vader] users_db)
   \<and> updateMany (mongo field_eq) ''users'' audit_hooks (JObj []) [(''isAdmin'', JBool True)]
        Undefined \<lparr>store = users_db, events = []\<rparr>
     = (Inr 2,
        \<lparr>store = put_coll ''users'' [yoda_admin, vader] users_db,
         events = [Driver (UpdateMany ''users'' (JObj [])
                     (set_update [(''isAdmin'', JBool True)]) Undefined)]\<rparr>)
   \<and> deleteMany (mongo field_eq) ''users'' audit_hooks (JObj []) Undefined
        \<lparr>store = users_db, events = []\<rparr>
     = (Inr 2,
        \<lparr>store = put_coll ''users'' [] users_db,
         events = [Driver (DeleteMany ''users'' (JObj []) Undefined)]\<rparr>)
   \<and> length (filter (field_eq (JObj [])) (colls users_db ''users'')) = 2"
proof -
  let ?w = "\<lparr>store = users_db, events = []\<rparr>"
  have um: "db_updateMany (mongo field_eq) ''users'' (JObj [])
              (set_update [(''isAdmin'', JBool True)]) Undefined (store ?w)
            = (Inr \<lparr>matchedCount = 2, modifiedCount = 1\<rparr>,
               put_coll ''users'' [yoda_admin, vader] users_db)"
    by (simp add: mongo_defs example_defs)
  have dm: "db_deleteMany (mongo field_eq) ''users'' (JObj []) Undefined (store ?w)
            = (Inr \<lparr>deletedCount = 2\<rparr>, put_coll ''users'' [] users_db)"
    by (simp add: mongo_defs example_defs)
  have n: "length (filter (field_eq (JObj [])) (colls users_db ''users'')) = 2"
    by (simp add: field_eq_def example_defs)
  from many_return_matched_count [of "mongo field_eq" "''users''" "JObj []"
      "[(''isAdmin'', JBool True)]" Undefined ?w "\<lparr>matchedCount = 2, modifiedCount = 1\<rparr>"
      "put_coll ''users'' [yoda_admin, vader] users_db" audit_hooks
      "\<lparr>deletedCount = 2\<rparr>" "put_coll ''users'' [] users_db" field_eq audit_hooks ?w] um dm n
  show ?thesis by simp
qed


section \<open>createCollection is a closure\<close>

text \<open>
  C8. For every name and configuration, \<^verbatim>\<open>createCollection\<close> leaves the world as it is
  (the same database state, no driver call, no hook call) and returns the eight operations
  closed over the database handle, the name and the configuration.
\<close>

theorem createCollection_pure:
  "snd (createCollectionFactory database name config w) = w
   \<and> driver_calls (events (snd (createCollectionFactory database name config w)))
       = driver_calls (events w)
   \<and> fst (createCollectionFactory database name config w) =
       (let cfg = (case config of None \<Rightarrow> empty_config | Some c \<Rightarrow> c) in
        \<lparr>c_createOne = createOne database name cfg,
         c_createMany = createMany database name cfg,
         c_updateOne = updateOne database name cfg,
         c_deleteOne = deleteOne database name cfg,
         c_readOne = readOne database name cfg,
         c_readMany = readMany database name cfg,
         c_updateMany = updateMany database name cfg,
         c_deleteMany = deleteMany database name cfg\<rparr>)"
  by (simp add: createCollectionFactory_def Let_def)

theorem createCollection_pure_witness:
  "snd (createCollectionFactory (mongo field_eq) ''users'' None
          \<lparr>store = users_db, events = []\<rparr>) = \<lparr>store = users_db, events = []\<rparr>
   \<and> c_readOne (fst (createCollectionFactory (mongo field_eq) ''users'' None
          \<lparr>store = users_db, events = []\<rparr>))
       = readOne (mongo field_eq) ''users'' empty_config
   \<and> driver_calls (events (snd (c_readOne (fst (createCollectionFactory (mongo field_eq)
          ''users'' None \<lparr>store = users_db, events = []\<rparr>))
          (JObj [(''name'', JStr ''Yoda'')]) Undefined \<lparr>store = users_db, events = []\<rparr>)))
       = [FindOne ''users'' (JObj [(''name'', JStr ''Yoda'')]) Undefined]"
  using createCollection_pure [of "mongo field_eq" "''users''" None
      "\<lparr>store = users_db, events = []\<rparr>"]
  by (simp add: Let_def readOne_def await_def call_driver_def resolve_def driver_calls_def
        split: prod.splits sum.splits)


section \<open>readOne and falsy results\<close>

text \<open>
  C9. Whatever \<^verbatim>\<open>readOne\<close> resolves with is either \<^verbatim>\<open>null\<close> or the truthy value the
  driver's \<^verbatim>\<open>findOne\<close> resolved with: every falsy result of \<^verbatim>\<open>findOne\<close>, \<^verbatim>\<open>undefined\<close>
  included, becomes \<^verbatim>\<open>null\<close>, and \<^verbatim>\<open>readOne\<close> never resolves with \<^verbatim>\<open>undefined\<close>.
\<close>

theorem readOne_null_or_document:
  "(\<forall>v. fst (readOne database name cfg query options w) = Inr v \<longrightarrow>
        v = Null \<or>
        (truthy v \<and> (\<exists>s1. db_findOne database name query options (store w) = (Inr v, s1))))
   \<and> (db_findOne database name query options (store w) = (Inr r, s1) \<longrightarrow>
        fst (readOne database name cfg query options w) = Inr (if truthy r then r else Null))
   \<and> fst (readOne database name cfg query options w) \<noteq> Inr Undefined"
  by (auto simp: readOne_def await_def call_driver_def resolve_def
        split: prod.splits sum.splits if_splits)

theorem readOne_null_or_document_witness:
  "db_findOne undefined_find_db ''users'' (JObj [(''name'', JStr ''Yoda'')]) Undefined users_db
     = (Inr Undefined, users_db)
   \<and> fst (readOne undefined_find_db ''users'' empty_config (JObj [(''name'', JStr ''Yoda'')])
            Undefined \<lparr>store = users_db, events = []\<rparr>) = Inr Null
   \<and> fst (readOne (mongo field_eq) ''users'' empty_config (JObj [(''name'', JStr ''Yoda'')])
            Undefined \<lparr>store = users_db, events = []\<rparr>) = Inr (JObj yoda)"
proof -
  let ?q = "JObj [(''name'', JStr ''Yoda'')]"
  let ?w = "\<lparr>store = users_db, events = []\<rparr>"
  have u: "db_findOne undefined_find_db ''users'' ?q Undefined (store ?w)
             = (Inr Undefined, users_db)"
    by (simp add: undefined_find_db_def)
  have f: "db_findOne (mongo field_eq) ''users'' ?q Undefined (store ?w)
             = (Inr (JObj yoda), users_db)"
    by (simp add: mongo_defs example_defs)
  from readOne_null_or_document [of undefined_find_db "''users''" empty_config ?q Undefined ?w
         Undefined users_db]
       readOne_null_or_document [of "mongo field_eq" "''users''" empty_config ?q Undefined ?w
         "JObj yoda" users_db] u f
  show ?thesis by simp
qed


section \<open>An input key set to undefined\<close>



end
